theory Spec2Isabelle
  imports Complex_Main
begin

section \<open>Primitive value types of metaf.h\<close>

text \<open>
  A \<^verbatim>\<open>std::string\<close> is a \<^typ>\<open>string\<close> (a list of bytes). An \<^verbatim>\<open>unsigned int\<close> is a
  natural number; the one place where the source computes with it in a loop
  (\<^verbatim>\<open>strToUint\<close>) has the wrap-around modulo \<open>2 ^ 32\<close> written out. A \<^verbatim>\<open>float\<close>
  field is a \<^typ>\<open>real\<close>: the number the field holds after the assignment. The runway
  deposit depths are integers below \<open>2 ^ 24\<close>, which a \<^verbatim>\<open>float\<close> holds exactly; the sea
  level pressure is computed in \<^verbatim>\<open>double\<close> and rounded when it is stored, and these
  roundings are written out. A \<^verbatim>\<open>std::optional\<close> is an \<^typ>\<open>'a option\<close>.
\<close>

subsection \<open>strToUint\<close>

text \<open>
  The loop of \<^verbatim>\<open>strToUint\<close>: every byte must lie between \<^verbatim>\<open>'0'\<close> and \<^verbatim>\<open>'9'\<close>, and
  the digits are accumulated in base ten in an \<^verbatim>\<open>unsigned int\<close>.
\<close>

fun strToUintLoop :: "string \<Rightarrow> nat \<Rightarrow> nat option" where
  "strToUintLoop [] value = Some value"
| "strToUintLoop (c # cs) value =
     (if (of_char c :: nat) < of_char CHR ''0'' \<or> (of_char c :: nat) > of_char CHR ''9''
      then None
      else strToUintLoop cs
             ((value * 10 + ((of_char c :: nat) - of_char CHR ''0'')) mod 2 ^ 32))"

definition strToUint :: "string \<Rightarrow> nat \<Rightarrow> nat \<Rightarrow> nat option" where
  "strToUint str startPos digits =
     (if str = [] \<or> digits = 0 \<or> startPos + digits > length str then None
      else strToUintLoop (take digits (drop startPos str)) 0)"

subsection \<open>Decimal digits\<close>

text \<open>The bytes \<^verbatim>\<open>'0'\<close> to \<^verbatim>\<open>'9'\<close>: what \<^verbatim>\<open>\d\<close> matches in a regular expression of the source.\<close>

definition isDigit :: "char \<Rightarrow> bool" where
  "isDigit c = (48 \<le> (of_char c :: nat) \<and> (of_char c :: nat) \<le> 57)"

definition digitValue :: "char \<Rightarrow> nat" where
  "digitValue c = (of_char c :: nat) - 48"

text \<open>The number a string of decimal digits denotes (no wrap-around).\<close>

definition decimalValue :: "string \<Rightarrow> nat" where
  "decimalValue s = foldl (\<lambda>v c. v * 10 + digitValue c) 0 s"

subsection \<open>Floating point\<close>

text \<open>
  \<^verbatim>\<open>double\<close> and \<^verbatim>\<open>float\<close> are the binary64 and binary32 formats of IEEE 754, with 53 and
  24 significant binary digits; every operation and every conversion rounds its exact
  result to the nearest number of the format, to the one with the even significand when
  two are equally near. The numbers of \<^verbatim>\<open>Pressure::fromSlpString\<close> are non-negative
  multiples of \<open>2\<^sup>-\<^sup>5\<^sup>5\<close> far from the ends of the exponent range, and such a number is
  held as its natural number of units of \<open>2\<^sup>-\<^sup>5\<^sup>5\<close>.

  \<open>bitlen N\<close> is the number of binary digits of \<open>N\<close>, and \<open>roundBits p N\<close> is \<open>N\<close> rounded to
  \<open>p\<close> significant binary digits: \<open>N\<close> is \<open>q \<cdot> 2\<^sup>s\<^sup>h + r\<close> with \<open>q\<close> of \<open>p\<close> digits, and \<open>q\<close> goes
  up when \<open>r\<close> is above the half of \<open>2\<^sup>s\<^sup>h\<close>, or is the half and \<open>q\<close> is odd.
\<close>

fun bitlen :: "nat \<Rightarrow> nat" where
  "bitlen n = (if n = 0 then 0 else Suc (bitlen (n div 2)))"

declare bitlen.simps [simp del]

definition roundBits :: "nat \<Rightarrow> nat \<Rightarrow> nat" where
  "roundBits p N =
     (let l = bitlen N
      in if l \<le> p then N
         else
           let sh = l - p; q = N div 2 ^ sh; r = N mod 2 ^ sh; half = 2 ^ (sh - 1)
           in (if r < half \<or> (r = half \<and> even q) then q else q + 1) * 2 ^ sh)"

subsection \<open>Pressure\<close>

datatype PressureUnit = HECTOPASCAL | INCHES_HG | MM_HG

record Pressure =
  pressureValue :: "real option"
  pressureUnit :: PressureUnit

text \<open>
  \<^verbatim>\<open>static const auto slpDecimalPointShift = 0.1\<close> is a \<^verbatim>\<open>double\<close>: the literal \<^verbatim>\<open>0.1\<close>
  denotes the \<^verbatim>\<open>double\<close> nearest to one tenth, which is \<open>3602879701896397 \<cdot> 2\<^sup>-\<^sup>5\<^sup>5\<close>.
  The constant is held in units of \<open>2\<^sup>-\<^sup>5\<^sup>5\<close>.
\<close>

definition slpDecimalPointShift :: nat where
  "slpDecimalPointShift = 3602879701896397"

text \<open>
  \<^verbatim>\<open>Pressure::fromSlpString\<close>. In \<^verbatim>\<open>pr.value() * slpDecimalPointShift + base\<close> the
  \<^verbatim>\<open>unsigned int\<close> and the \<^verbatim>\<open>int\<close> are converted to \<^verbatim>\<open>double\<close>, which is exact; the product
  is rounded to a \<^verbatim>\<open>double\<close>, the sum is rounded to a \<^verbatim>\<open>double\<close>, and the assignment to the
  \<^verbatim>\<open>std::optional<float>\<close> rounds the sum to a \<^verbatim>\<open>float\<close>. \<open>product\<close>, \<open>sum\<close> and \<open>stored\<close>
  are in units of \<open>2\<^sup>-\<^sup>5\<^sup>5\<close>.
\<close>

definition fromSlpString :: "string \<Rightarrow> Pressure option" where
  "fromSlpString s =
     (if length s \<noteq> 6 then None
      else if s ! 0 \<noteq> CHR ''S'' \<or> s ! 1 \<noteq> CHR ''L'' \<or> s ! 2 \<noteq> CHR ''P'' then None
      else case strToUint s 3 3 of
             None \<Rightarrow> None
           | Some pr \<Rightarrow>
               let base = (if pr < 500 then 1000 else 900 :: nat);
                   product = roundBits 53 (pr * slpDecimalPointShift);
                   sum = roundBits 53 (product + base * 2 ^ 55);
                   stored = roundBits 24 sum
               in Some \<lparr>pressureValue = Some (real stored / 2 ^ 55),
                         pressureUnit = HECTOPASCAL\<rparr>)"

subsection \<open>Precipitation\<close>

datatype PrecipitationStatus = NOT_REPORTED | REPORTED | RUNWAY_NOT_OPERATIONAL

record Precipitation =
  precipStatus :: PrecipitationStatus
  precipValue :: real

text \<open>The default-constructed \<^verbatim>\<open>Precipitation()\<close>.\<close>

definition Precipitation_default :: Precipitation where
  "Precipitation_default = \<lparr>precipStatus = NOT_REPORTED, precipValue = 0\<rparr>"

text \<open>
  \<^verbatim>\<open>Precipitation::fromRunwayDeposits\<close>. The cases of the \<^verbatim>\<open>switch\<close> are the
  enumerators of \<^verbatim>\<open>Precipitation::Reserved\<close>: \<^verbatim>\<open>RESERVED = 91\<close>, \<^verbatim>\<open>DEPTH_10CM = 92\<close>,
  ..., \<^verbatim>\<open>DEPTH_40CM = 98\<close>, \<^verbatim>\<open>RUNWAY_NOT_OPERATIONAL = 99\<close>.
\<close>

definition fromRunwayDeposits :: "string \<Rightarrow> Precipitation option" where
  "fromRunwayDeposits s =
     (if length s \<noteq> 2 then None
      else if s = ''//'' then Some Precipitation_default
      else case strToUint s 0 2 of
             None \<Rightarrow> None
           | Some dep \<Rightarrow>
               if dep = 91 then None
               else if dep = 92 then Some \<lparr>precipStatus = REPORTED, precipValue = 100\<rparr>
               else if dep = 93 then Some \<lparr>precipStatus = REPORTED, precipValue = 150\<rparr>
               else if dep = 94 then Some \<lparr>precipStatus = REPORTED, precipValue = 200\<rparr>
               else if dep = 95 then Some \<lparr>precipStatus = REPORTED, precipValue = 250\<rparr>
               else if dep = 96 then Some \<lparr>precipStatus = REPORTED, precipValue = 300\<rparr>
               else if dep = 97 then Some \<lparr>precipStatus = REPORTED, precipValue = 350\<rparr>
               else if dep = 98 then Some \<lparr>precipStatus = REPORTED, precipValue = 400\<rparr>
               else if dep = 99
                 then Some \<lparr>precipStatus = RUNWAY_NOT_OPERATIONAL, precipValue = 0\<rparr>
               else Some \<lparr>precipStatus = REPORTED, precipValue = real dep\<rparr>)"

subsection \<open>Distance\<close>

datatype DistanceUnit = METERS | STATUTE_MILES | FEET

datatype Modifier = NONE | LESS_THAN | MORE_THAN

record Distance =
  distModifier :: Modifier
  distValueInt :: "nat option"
  distValueNum :: "nat option"
  distValueDen :: "nat option"
  distUnit :: DistanceUnit

definition isInteger :: "Distance \<Rightarrow> bool" where
  "isInteger d =
     (distValueInt d \<noteq> None \<and> \<not> distValueNum d \<noteq> None \<and> \<not> distValueDen d \<noteq> None)"

definition isFraction :: "Distance \<Rightarrow> bool" where
  "isFraction d =
     (\<not> distValueInt d \<noteq> None \<and> distValueNum d \<noteq> None \<and> distValueDen d \<noteq> None)"

text \<open>\<^verbatim>\<open>Distance::isValid\<close>: a reported numerator or denominator must not be zero.\<close>

definition Distance_isValid :: "Distance \<Rightarrow> bool" where
  "Distance_isValid d =
     (if distValueDen d = Some 0 then False
      else if distValueNum d = Some 0 then False
      else True)"

definition fromIntegerAndFraction :: "Distance \<Rightarrow> Distance \<Rightarrow> Distance option" where
  "fromIntegerAndFraction integer fraction =
     (if \<not> Distance_isValid integer \<or>
         \<not> Distance_isValid fraction \<or>
         distModifier integer \<noteq> Modifier.NONE \<or>
         distModifier fraction \<noteq> Modifier.NONE \<or>
         distUnit integer \<noteq> distUnit fraction \<or>
         \<not> isInteger integer \<or>
         \<not> isFraction fraction then None
      else Some (integer\<lparr>distValueNum := distValueNum fraction,
                         distValueDen := distValueDen fraction\<rparr>))"

subsection \<open>Runway\<close>

datatype Designator = NONE | LEFT | CENTER | RIGHT

record Runway =
  rNumber :: nat
  rDesignator :: Designator



text \<open>The default-constructed \<^verbatim>\<open>Runway()\<close> and \<^verbatim>\<open>Runway::makeAllRunways\<close>.\<close>

definition Runway_default :: Runway where
  "Runway_default = \<lparr>rNumber = 0, rDesignator = Designator.NONE\<rparr>"

definition makeAllRunways :: Runway where
  "makeAllRunways = Runway_default\<lparr>rNumber := 88\<rparr>"

definition designatorFromChar :: "char \<Rightarrow> Designator option" where
  "designatorFromChar c =
     (if c = CHR ''R'' then Some RIGHT
      else if c = CHR ''C'' then Some CENTER
      else if c = CHR ''L'' then Some LEFT
      else None)"

definition Runway_fromString :: "string \<Rightarrow> bool \<Rightarrow> Runway option" where
  "Runway_fromString s enableRwy =
     (if length s < 3 then None
      else if s ! 0 \<noteq> CHR ''R'' then None
      else
        let numPos = (if enableRwy \<and> s ! 1 = CHR ''W'' \<and> s ! 2 = CHR ''Y'' then 1 + 2 else 1)
        in case strToUint s numPos 2 of
             None \<Rightarrow> None
           | Some rwyNum \<Rightarrow>
               let dsgPos = numPos + 2
               in if length s > dsgPos + 1 then None
                  else if length s > dsgPos then
                    (case designatorFromChar (s ! dsgPos) of
                       None \<Rightarrow> None
                     | Some designator \<Rightarrow>
                         Some \<lparr>rNumber = rwyNum, rDesignator = designator\<rparr>)
                  else Some \<lparr>rNumber = rwyNum, rDesignator = Designator.NONE\<rparr>)"

subsection \<open>MetafTime\<close>

record MetafTime =
  dayValue :: "nat option"
  hourValue :: nat
  minuteValue :: nat

definition fromStringDDHHMM :: "string \<Rightarrow> MetafTime option" where
  "fromStringDDHHMM s =
     (if length s = 4 then
        (case (strToUint s 0 2, strToUint s 2 2) of
           (Some hour, Some minute) \<Rightarrow>
             Some \<lparr>dayValue = None, hourValue = hour, minuteValue = minute\<rparr>
         | _ \<Rightarrow> None)
      else if length s = 6 then
        (case (strToUint s 0 2, strToUint s 2 2, strToUint s 4 2) of
           (Some day, Some hour, Some minute) \<Rightarrow>
             Some \<lparr>dayValue = Some day, hourValue = hour, minuteValue = minute\<rparr>
         | _ \<Rightarrow> None)
      else None)"

section \<open>Groups\<close>

datatype ReportPart = UNKNOWN | HEADER | METAR | TAF | RMK

subsection \<open>PlainTextGroup\<close>

text \<open>
  A \<^verbatim>\<open>PlainTextGroup\<close> holds a buffer of \<^verbatim>\<open>textMaxLength + 1\<close> bytes; it is modelled
  by the string \<^verbatim>\<open>toString()\<close> reads from it. The constructor copies with
  \<^verbatim>\<open>strncpy(text, s.c_str(), textMaxLength)\<close>: at most 15 bytes, and none from the
  first NUL byte on.
\<close>

type_synonym PlainTextGroup = string

definition textMaxLength :: nat where
  "textMaxLength = 15"

definition PlainTextGroup_of :: "string \<Rightarrow> PlainTextGroup" where
  "PlainTextGroup_of s = take textMaxLength (takeWhile (\<lambda>c. c \<noteq> CHR 0x00) s)"

subsection \<open>FixedGroup\<close>

datatype FixedType =
  METAR | SPECI | TAF | AMD | NIL | CNL | COR | AUTO | R_SNOCLO | CAVOK | NSW | RMK
  | WSCONDS | MAINTENANCE_INDICATOR | AO1 | AO2 | NOSPECI | PRESFR | PRESRR | RVRNO
  | PWINO | PNO | FZRANO | TSNO | SLPNO

text \<open>\<^verbatim>\<open>FixedGroup::parse\<close>: the chain of tests, in the order of the source.\<close>

definition FixedGroup_parse :: "string \<Rightarrow> ReportPart \<Rightarrow> FixedType option" where
  "FixedGroup_parse grp reportPart =
     (if reportPart = ReportPart.HEADER \<and> grp = ''METAR'' then Some FixedType.METAR
      else if reportPart = ReportPart.HEADER \<and> grp = ''SPECI'' then Some FixedType.SPECI
      else if reportPart = ReportPart.HEADER \<and> grp = ''TAF'' then Some FixedType.TAF
      else if reportPart = ReportPart.HEADER \<and> grp = ''AMD'' then Some FixedType.AMD
      else if (reportPart = ReportPart.HEADER \<or> reportPart = ReportPart.METAR) \<and>
              grp = ''COR'' then Some FixedType.COR
      else if (reportPart = ReportPart.HEADER \<or> reportPart = ReportPart.METAR \<or>
               reportPart = ReportPart.TAF) \<and> grp = ''NIL'' then Some FixedType.NIL
      else if (reportPart = ReportPart.HEADER \<or> reportPart = ReportPart.METAR \<or>
               reportPart = ReportPart.TAF) \<and> grp = ''CNL'' then Some FixedType.CNL
      else if reportPart = ReportPart.METAR \<and> grp = ''AUTO'' then Some FixedType.AUTO
      else if reportPart = ReportPart.METAR \<and> grp = ''SNOCLO'' then Some FixedType.R_SNOCLO
      else if reportPart = ReportPart.METAR \<and> grp = ''R/SNOCLO''
        then Some FixedType.R_SNOCLO
      else if reportPart = ReportPart.TAF \<and> grp = ''WSCONDS'' then Some FixedType.WSCONDS
      else if (reportPart = ReportPart.METAR \<or> reportPart = ReportPart.TAF) \<and>
              grp = ''CAVOK'' then Some FixedType.CAVOK
      else if (reportPart = ReportPart.METAR \<or> reportPart = ReportPart.TAF) \<and>
              grp = ''NSW'' then Some FixedType.NSW
      else if (reportPart = ReportPart.METAR \<or> reportPart = ReportPart.TAF) \<and>
              grp = ''RMK'' then Some FixedType.RMK
      else if reportPart = ReportPart.RMK \<and> grp = ''AO1'' then Some FixedType.AO1
      else if reportPart = ReportPart.RMK \<and> grp = ''AO2'' then Some FixedType.AO2
      else if reportPart = ReportPart.RMK \<and> grp = ''NOSPECI'' then Some FixedType.NOSPECI
      else if reportPart = ReportPart.RMK \<and> grp = ''PRESFR'' then Some FixedType.PRESFR
      else if reportPart = ReportPart.RMK \<and> grp = ''PRESRR'' then Some FixedType.PRESRR
      else if reportPart = ReportPart.RMK \<and> grp = ''RVRNO'' then Some FixedType.RVRNO
      else if reportPart = ReportPart.RMK \<and> grp = ''PWINO'' then Some FixedType.PWINO
      else if reportPart = ReportPart.RMK \<and> grp = ''PNO'' then Some FixedType.PNO
      else if reportPart = ReportPart.RMK \<and> grp = ''FZRANO'' then Some FixedType.FZRANO
      else if reportPart = ReportPart.RMK \<and> grp = ''TSNO'' then Some FixedType.TSNO
      else if reportPart = ReportPart.RMK \<and> grp = ''SLPNO'' then Some FixedType.SLPNO
      else if grp = ''$'' then Some FixedType.MAINTENANCE_INDICATOR
      else None)"

subsection \<open>LocationGroup\<close>

text \<open>
  \<^verbatim>\<open>LocationGroup::parse\<close> accepts, in the header only, a whole match of the regular
  expression \<^verbatim>\<open>[A-Z][A-Z0-9]{3}\<close>, and keeps the first \<^verbatim>\<open>locationLength = 4\<close> bytes.
\<close>

type_synonym LocationGroup = string

definition isUpper :: "char \<Rightarrow> bool" where
  "isUpper c = ((of_char CHR ''A'' :: nat) \<le> of_char c \<and> (of_char c :: nat) \<le> of_char CHR ''Z'')"

definition LocationGroup_parse :: "string \<Rightarrow> ReportPart \<Rightarrow> LocationGroup option" where
  "LocationGroup_parse grp reportPart =
     (if reportPart \<noteq> ReportPart.HEADER then None
      else if \<not> (length grp = 4 \<and> isUpper (grp ! 0) \<and>
                  list_all (\<lambda>c. isUpper c \<or> isDigit c) (drop 1 grp)) then None
      else Some (take 4 grp))"

subsection \<open>ReportTimeGroup\<close>

text \<open>
  \<^verbatim>\<open>ReportTimeGroup::parse\<close> accepts, in the header only, a whole match of
  \<^verbatim>\<open>\d\d\d\d\d\dZ\<close> whose first six bytes \<^verbatim>\<open>MetafTime::fromStringDDHHMM\<close> reads as a
  time with a day. The group holds that time.
\<close>

type_synonym ReportTimeGroup = MetafTime

definition ReportTimeGroup_parse :: "string \<Rightarrow> ReportPart \<Rightarrow> ReportTimeGroup option" where
  "ReportTimeGroup_parse grp reportPart =
     (if reportPart \<noteq> ReportPart.HEADER then None
      else if \<not> (length grp = 7 \<and> list_all isDigit (take 6 grp) \<and>
                  grp ! 6 = CHR ''Z'') then None
      else case fromStringDDHHMM (take 6 (drop 0 grp)) of
             None \<Rightarrow> None
           | Some tm \<Rightarrow> if dayValue tm = None then None else Some tm)"

subsection \<open>WindShearLowLayerGroup\<close>

datatype WindShearStatus = COMPLETE | INCOMPLETE_WS | INCOMPLETE_WS_ALL

record WindShearLowLayerGroup =
  rw :: Runway
  ws_status :: WindShearStatus

definition WindShearLowLayerGroup_default :: WindShearLowLayerGroup where
  "WindShearLowLayerGroup_default = \<lparr>rw = Runway_default, ws_status = INCOMPLETE_WS\<rparr>"


definition WindShearLowLayerGroup_parse ::
  "string \<Rightarrow> ReportPart \<Rightarrow> WindShearLowLayerGroup option" where
  "WindShearLowLayerGroup_parse grp reportPart =
     (if reportPart \<noteq> ReportPart.METAR then None
      else if grp = ''WS'' then Some WindShearLowLayerGroup_default
      else None)"

subsection \<open>The variant Group\<close>

text \<open>
  \<^verbatim>\<open>Group\<close> is a \<^verbatim>\<open>std::variant\<close> of eighteen classes. Five of them are modelled with
  their fields. The other thirteen (\<^verbatim>\<open>TrendGroup\<close>, \<^verbatim>\<open>WindGroup\<close>, \<^verbatim>\<open>VisibilityGroup\<close>,
  \<^verbatim>\<open>CloudGroup\<close>, \<^verbatim>\<open>WeatherGroup\<close>, \<^verbatim>\<open>TemperatureGroup\<close>, \<^verbatim>\<open>TemperatureForecastGroup\<close>,
  \<^verbatim>\<open>PressureGroup\<close>, \<^verbatim>\<open>RunwayVisualRangeGroup\<close>, \<^verbatim>\<open>RunwayStateGroup\<close>, \<^verbatim>\<open>RainfallGroup\<close>,
  \<^verbatim>\<open>SeaSurfaceGroup\<close>, \<^verbatim>\<open>ColourCodeGroup\<close>) are values of a type parameter \<open>'x\<close>, and
  what the parser calls on them is a record of functions the definitions below take as
  an argument: every theorem holds for all such functions, those of the source among
  them.
\<close>

datatype 'x Group =
  Group_PlainText PlainTextGroup
  | Group_Fixed FixedType
  | Group_Location LocationGroup
  | Group_ReportTime ReportTimeGroup
  | Group_WindShearLowLayer WindShearLowLayerGroup
  | Group_Unmodelled 'x

record 'x Unmodelled =
  parseTrendToRunwayState :: "string \<Rightarrow> ReportPart \<Rightarrow> 'x option"
  parseRainfallToColourCode :: "string \<Rightarrow> ReportPart \<Rightarrow> 'x option"
  isTimeSpanGroup :: "'x \<Rightarrow> bool"
  combineUnmodelled :: "'x \<Rightarrow> 'x Group \<Rightarrow> 'x Group option"

text \<open>\<^verbatim>\<open>WindShearLowLayerGroup::combine\<close>.\<close>

definition WindShearLowLayerGroup_combine ::
  "WindShearLowLayerGroup \<Rightarrow> 'x Group \<Rightarrow> 'x Group option" where
  "WindShearLowLayerGroup_combine this nextGroup =
     (case nextGroup of
        Group_PlainText nextGroupStr \<Rightarrow>
          (case ws_status this of
             COMPLETE \<Rightarrow> None
           | INCOMPLETE_WS \<Rightarrow>
               if nextGroupStr = ''ALL''
               then Some (Group_WindShearLowLayer (this\<lparr>ws_status := INCOMPLETE_WS_ALL\<rparr>))
               else (case Runway_fromString nextGroupStr True of
                       Some runway \<Rightarrow>
                         Some (Group_WindShearLowLayer
                                 (this\<lparr>ws_status := COMPLETE, rw := runway\<rparr>))
                     | None \<Rightarrow> None)
           | INCOMPLETE_WS_ALL \<Rightarrow>
               if nextGroupStr = ''RWY''
               then Some (Group_WindShearLowLayer
                            (this\<lparr>ws_status := COMPLETE, rw := makeAllRunways\<rparr>))
               else None)
      | _ \<Rightarrow> None)"

text \<open>
  \<^verbatim>\<open>GenericGroupParser::parse\<close> for \<^verbatim>\<open>GroupParser\<close>: the alternatives of the variant
  are tried in the order of their declaration, \<^verbatim>\<open>PlainTextGroup\<close> (the fallback) left
  out, and the fallback is built from the string when all decline.
\<close>

definition GroupParser_parse :: "'x Unmodelled \<Rightarrow> string \<Rightarrow> ReportPart \<Rightarrow> 'x Group" where
  "GroupParser_parse U grp reportPart =
     (case FixedGroup_parse grp reportPart of
        Some parsed \<Rightarrow> Group_Fixed parsed
      | None \<Rightarrow>
     (case LocationGroup_parse grp reportPart of
        Some parsed \<Rightarrow> Group_Location parsed
      | None \<Rightarrow>
     (case ReportTimeGroup_parse grp reportPart of
        Some parsed \<Rightarrow> Group_ReportTime parsed
      | None \<Rightarrow>
     (case parseTrendToRunwayState U grp reportPart of
        Some parsed \<Rightarrow> Group_Unmodelled parsed
      | None \<Rightarrow>
     (case WindShearLowLayerGroup_parse grp reportPart of
        Some parsed \<Rightarrow> Group_WindShearLowLayer parsed
      | None \<Rightarrow>
     (case parseRainfallToColourCode U grp reportPart of
        Some parsed \<Rightarrow> Group_Unmodelled parsed
      | None \<Rightarrow> Group_PlainText (PlainTextGroup_of grp)))))))"

text \<open>
  The \<^verbatim>\<open>combine\<close> of the previous group, as \<^verbatim>\<open>std::visit\<close> selects it. The \<^verbatim>\<open>combine\<close>
  of \<^verbatim>\<open>PlainTextGroup\<close>, \<^verbatim>\<open>FixedGroup\<close>, \<^verbatim>\<open>LocationGroup\<close> and \<^verbatim>\<open>ReportTimeGroup\<close>
  returns no value.
\<close>

definition Group_combine :: "'x Unmodelled \<Rightarrow> 'x Group \<Rightarrow> 'x Group \<Rightarrow> 'x Group option" where
  "Group_combine U previousGroup currentGroup =
     (case previousGroup of
        Group_PlainText _ \<Rightarrow> None
      | Group_Fixed _ \<Rightarrow> None
      | Group_Location _ \<Rightarrow> None
      | Group_ReportTime _ \<Rightarrow> None
      | Group_WindShearLowLayer g \<Rightarrow> WindShearLowLayerGroup_combine g currentGroup
      | Group_Unmodelled x \<Rightarrow> combineUnmodelled U x currentGroup)"

section \<open>The report parser\<close>

datatype SyntaxGroup =
  OTHER | METAR | SPECI | TAF | COR | AMD | LOCATION | REPORT_TIME | TIME_SPAN | CNL | NIL
  | RMK | MAINTENANCE_INDICATOR

text \<open>
  \<^verbatim>\<open>getSyntaxGroup\<close>. Of the alternatives not modelled only a \<^verbatim>\<open>TrendGroup\<close> for which
  \<^verbatim>\<open>isTimeSpanGroup()\<close> holds is not \<^verbatim>\<open>OTHER\<close>.
\<close>

definition getSyntaxGroup :: "'x Unmodelled \<Rightarrow> 'x Group \<Rightarrow> SyntaxGroup" where
  "getSyntaxGroup U grp =
     (case grp of
        Group_Fixed fixedType \<Rightarrow>
          (case fixedType of
             FixedType.METAR \<Rightarrow> SyntaxGroup.METAR
           | FixedType.SPECI \<Rightarrow> SyntaxGroup.SPECI
           | FixedType.TAF \<Rightarrow> SyntaxGroup.TAF
           | FixedType.COR \<Rightarrow> SyntaxGroup.COR
           | FixedType.AMD \<Rightarrow> SyntaxGroup.AMD
           | FixedType.NIL \<Rightarrow> SyntaxGroup.NIL
           | FixedType.CNL \<Rightarrow> SyntaxGroup.CNL
           | FixedType.RMK \<Rightarrow> SyntaxGroup.RMK
           | FixedType.MAINTENANCE_INDICATOR \<Rightarrow> SyntaxGroup.MAINTENANCE_INDICATOR
           | _ \<Rightarrow> SyntaxGroup.OTHER)
      | Group_Location _ \<Rightarrow> SyntaxGroup.LOCATION
      | Group_ReportTime _ \<Rightarrow> SyntaxGroup.REPORT_TIME
      | Group_Unmodelled x \<Rightarrow>
          if isTimeSpanGroup U x then SyntaxGroup.TIME_SPAN else SyntaxGroup.OTHER
      | _ \<Rightarrow> SyntaxGroup.OTHER)"

datatype ReportType = UNKNOWN | METAR | TAF

datatype Error =
  NONE | EMPTY_REPORT | EXPECTED_REPORT_TYPE_OR_LOCATION | EXPECTED_LOCATION
  | EXPECTED_REPORT_TIME | EXPECTED_TIME_SPAN | UNEXPECTED_REPORT_END
  | UNEXPECTED_GROUP_AFTER_NIL | UNEXPECTED_GROUP_AFTER_CNL
  | UNEXPECTED_GROUP_AFTER_MAINTENANCE_INDICATOR | UNEXPECTED_NIL_OR_CNL_IN_REPORT_BODY
  | AMD_ALLOWED_IN_TAF_ONLY | CNL_ALLOWED_IN_TAF_ONLY
  | MAINTENANCE_INDICATOR_ALLOWED_IN_METAR_ONLY | INTERNAL_PARSER_STATE

datatype State =
  REPORT_TYPE_OR_LOCATION | CORRECTION | LOCATION | REPORT_TIME | TIME_SPAN
  | REPORT_BODY_BEGIN_METAR | REPORT_BODY_BEGIN_METAR_REPEAT_PARSE | REPORT_BODY_METAR
  | REPORT_BODY_BEGIN_TAF | REPORT_BODY_TAF | REMARK_METAR | REMARK_TAF
  | MAINTENANCE_INDICATOR | NIL | CNL | ERROR

text \<open>
  The class \<^verbatim>\<open>Status\<close>: the state of the syntax check, the report type and the error.
\<close>

record Status =
  state :: State
  st_reportType :: ReportType
  st_error :: Error

definition Status_init :: Status where
  "Status_init =
     \<lparr>state = State.REPORT_TYPE_OR_LOCATION, st_reportType = ReportType.UNKNOWN,
      st_error = Error.NONE\<rparr>"

definition getReportType :: "Status \<Rightarrow> ReportType" where
  "getReportType st = st_reportType st"

definition getError :: "Status \<Rightarrow> Error" where
  "getError st = st_error st"

definition isError :: "Status \<Rightarrow> bool" where
  "isError st = (st_error st \<noteq> Error.NONE)"

definition isReparseRequired :: "Status \<Rightarrow> bool" where
  "isReparseRequired st = (state st = State.REPORT_BODY_BEGIN_METAR_REPEAT_PARSE)"

definition setState :: "State \<Rightarrow> Status \<Rightarrow> Status" where
  "setState s st = st\<lparr>state := s\<rparr>"

definition setError :: "Error \<Rightarrow> Status \<Rightarrow> Status" where
  "setError e st = st\<lparr>state := State.ERROR, st_error := e\<rparr>"

definition setReportType :: "ReportType \<Rightarrow> Status \<Rightarrow> Status" where
  "setReportType rt st = st\<lparr>st_reportType := rt\<rparr>"

text \<open>\<^verbatim>\<open>Status::getReportPart\<close>: the first pair of the table with the state.\<close>

definition stateReportParts :: "(State \<times> ReportPart) list" where
  "stateReportParts =
     [(State.REPORT_TYPE_OR_LOCATION, ReportPart.HEADER),
      (State.CORRECTION, ReportPart.HEADER),
      (State.LOCATION, ReportPart.HEADER),
      (State.REPORT_TIME, ReportPart.HEADER),
      (State.TIME_SPAN, ReportPart.HEADER),
      (State.REPORT_BODY_BEGIN_METAR, ReportPart.METAR),
      (State.REPORT_BODY_BEGIN_METAR_REPEAT_PARSE, ReportPart.METAR),
      (State.REPORT_BODY_METAR, ReportPart.METAR),
      (State.REPORT_BODY_BEGIN_TAF, ReportPart.TAF),
      (State.REPORT_BODY_TAF, ReportPart.TAF),
      (State.REMARK_METAR, ReportPart.RMK),
      (State.REMARK_TAF, ReportPart.RMK),
      (State.MAINTENANCE_INDICATOR, ReportPart.UNKNOWN),
      (State.NIL, ReportPart.UNKNOWN),
      (State.CNL, ReportPart.UNKNOWN),
      (State.ERROR, ReportPart.UNKNOWN)]"

definition getReportPart :: "Status \<Rightarrow> ReportPart" where
  "getReportPart st =
     (case find (\<lambda>srp. fst srp = state st) stateReportParts of
        Some srp \<Rightarrow> snd srp
      | None \<Rightarrow> ReportPart.UNKNOWN)"

subsection \<open>Transitions of the state machine\<close>

definition transitionFromReportTypeOrLocation :: "SyntaxGroup \<Rightarrow> Status \<Rightarrow> Status" where
  "transitionFromReportTypeOrLocation grp st =
     (case grp of
        SyntaxGroup.METAR \<Rightarrow> setState State.CORRECTION (setReportType ReportType.METAR st)
      | SyntaxGroup.SPECI \<Rightarrow> setState State.CORRECTION (setReportType ReportType.METAR st)
      | SyntaxGroup.TAF \<Rightarrow> setState State.CORRECTION (setReportType ReportType.TAF st)
      | SyntaxGroup.LOCATION \<Rightarrow> setState State.REPORT_TIME st
      | _ \<Rightarrow> setError Error.EXPECTED_REPORT_TYPE_OR_LOCATION st)"

definition transitionFromCorrecton :: "SyntaxGroup \<Rightarrow> Status \<Rightarrow> Status" where
  "transitionFromCorrecton grp st =
     (case grp of
        SyntaxGroup.AMD \<Rightarrow>
          (let st1 = setState State.LOCATION st
           in if getReportType st1 \<noteq> ReportType.TAF
              then setError Error.AMD_ALLOWED_IN_TAF_ONLY st1 else st1)
      | SyntaxGroup.COR \<Rightarrow> setState State.LOCATION st
      | SyntaxGroup.LOCATION \<Rightarrow> setState State.REPORT_TIME st
      | _ \<Rightarrow> setError Error.EXPECTED_LOCATION st)"

definition transitionFromReportTime :: "SyntaxGroup \<Rightarrow> Status \<Rightarrow> Status" where
  "transitionFromReportTime grp st =
     (case grp of
        SyntaxGroup.REPORT_TIME \<Rightarrow>
          if st_reportType st = ReportType.METAR
          then setState State.REPORT_BODY_BEGIN_METAR st
          else setState State.TIME_SPAN st
      | SyntaxGroup.TIME_SPAN \<Rightarrow>
          if getReportType st = ReportType.TAF
          then setState State.REPORT_BODY_BEGIN_TAF st
          else setError Error.EXPECTED_REPORT_TIME st
      | SyntaxGroup.NIL \<Rightarrow> setState State.NIL st
      | _ \<Rightarrow> setError Error.EXPECTED_REPORT_TIME st)"

definition transitionFromTimeSpan :: "SyntaxGroup \<Rightarrow> Status \<Rightarrow> Status" where
  "transitionFromTimeSpan grp st =
     (case grp of
        SyntaxGroup.TIME_SPAN \<Rightarrow>
          setState State.REPORT_BODY_BEGIN_TAF (setReportType ReportType.TAF st)
      | SyntaxGroup.NIL \<Rightarrow> setState State.NIL st
      | _ \<Rightarrow>
          if getReportType st = ReportType.UNKNOWN
          then setState State.REPORT_BODY_BEGIN_METAR_REPEAT_PARSE
                 (setReportType ReportType.METAR st)
          else setError Error.EXPECTED_TIME_SPAN st)"

definition transitionFromReportBodyBeginMetar :: "SyntaxGroup \<Rightarrow> Status \<Rightarrow> Status" where
  "transitionFromReportBodyBeginMetar grp st =
     (case grp of
        SyntaxGroup.NIL \<Rightarrow> setState State.NIL st
      | SyntaxGroup.CNL \<Rightarrow> setError Error.CNL_ALLOWED_IN_TAF_ONLY st
      | SyntaxGroup.RMK \<Rightarrow> setState State.REMARK_METAR st
      | SyntaxGroup.MAINTENANCE_INDICATOR \<Rightarrow> setState State.MAINTENANCE_INDICATOR st
      | _ \<Rightarrow> setState State.REPORT_BODY_METAR st)"

definition transitionFromReportBodyMetar :: "SyntaxGroup \<Rightarrow> Status \<Rightarrow> Status" where
  "transitionFromReportBodyMetar grp st =
     (case grp of
        SyntaxGroup.RMK \<Rightarrow> setState State.REMARK_METAR st
      | SyntaxGroup.MAINTENANCE_INDICATOR \<Rightarrow> setState State.MAINTENANCE_INDICATOR st
      | SyntaxGroup.NIL \<Rightarrow> setError Error.UNEXPECTED_NIL_OR_CNL_IN_REPORT_BODY st
      | SyntaxGroup.CNL \<Rightarrow> setError Error.UNEXPECTED_NIL_OR_CNL_IN_REPORT_BODY st
      | _ \<Rightarrow> st)"

definition transitionFromReportBodyBeginTaf :: "SyntaxGroup \<Rightarrow> Status \<Rightarrow> Status" where
  "transitionFromReportBodyBeginTaf grp st =
     (case grp of
        SyntaxGroup.NIL \<Rightarrow> setState State.NIL st
      | SyntaxGroup.CNL \<Rightarrow> setState State.CNL st
      | SyntaxGroup.RMK \<Rightarrow> setState State.REMARK_TAF st
      | SyntaxGroup.MAINTENANCE_INDICATOR \<Rightarrow>
          setError Error.MAINTENANCE_INDICATOR_ALLOWED_IN_METAR_ONLY st
      | _ \<Rightarrow> setState State.REPORT_BODY_TAF st)"

definition transitionFromReportBodyTaf :: "SyntaxGroup \<Rightarrow> Status \<Rightarrow> Status" where
  "transitionFromReportBodyTaf grp st =
     (case grp of
        SyntaxGroup.RMK \<Rightarrow> setState State.REMARK_TAF st
      | SyntaxGroup.NIL \<Rightarrow> setError Error.UNEXPECTED_NIL_OR_CNL_IN_REPORT_BODY st
      | SyntaxGroup.CNL \<Rightarrow> setError Error.UNEXPECTED_NIL_OR_CNL_IN_REPORT_BODY st
      | SyntaxGroup.MAINTENANCE_INDICATOR \<Rightarrow>
          setError Error.MAINTENANCE_INDICATOR_ALLOWED_IN_METAR_ONLY st
      | _ \<Rightarrow> st)"

text \<open>
  \<^verbatim>\<open>Status::transition\<close>. The \<^verbatim>\<open>default\<close> branch of the source's \<^verbatim>\<open>switch\<close>
  (\<^verbatim>\<open>INTERNAL_PARSER_STATE\<close>) has no state left to apply to.
\<close>

definition transition :: "SyntaxGroup \<Rightarrow> Status \<Rightarrow> Status" where
  "transition grp st =
     (case state st of
        State.REPORT_TYPE_OR_LOCATION \<Rightarrow> transitionFromReportTypeOrLocation grp st
      | State.CORRECTION \<Rightarrow> transitionFromCorrecton grp st
      | State.LOCATION \<Rightarrow>
          if grp = SyntaxGroup.LOCATION then setState State.REPORT_TIME st
          else setError Error.EXPECTED_LOCATION st
      | State.REPORT_TIME \<Rightarrow> transitionFromReportTime grp st
      | State.TIME_SPAN \<Rightarrow> transitionFromTimeSpan grp st
      | State.REPORT_BODY_BEGIN_METAR \<Rightarrow> transitionFromReportBodyBeginMetar grp st
      | State.REPORT_BODY_BEGIN_METAR_REPEAT_PARSE \<Rightarrow>
          transitionFromReportBodyBeginMetar grp st
      | State.REPORT_BODY_METAR \<Rightarrow> transitionFromReportBodyMetar grp st
      | State.REPORT_BODY_BEGIN_TAF \<Rightarrow> transitionFromReportBodyBeginTaf grp st
      | State.REPORT_BODY_TAF \<Rightarrow> transitionFromReportBodyTaf grp st
      | State.REMARK_METAR \<Rightarrow>
          if grp = SyntaxGroup.MAINTENANCE_INDICATOR
          then setState State.MAINTENANCE_INDICATOR st else st
      | State.REMARK_TAF \<Rightarrow>
          if grp = SyntaxGroup.MAINTENANCE_INDICATOR
          then setError Error.MAINTENANCE_INDICATOR_ALLOWED_IN_METAR_ONLY st else st
      | State.MAINTENANCE_INDICATOR \<Rightarrow>
          setError Error.UNEXPECTED_GROUP_AFTER_MAINTENANCE_INDICATOR st
      | State.NIL \<Rightarrow> setError Error.UNEXPECTED_GROUP_AFTER_NIL st
      | State.CNL \<Rightarrow> setError Error.UNEXPECTED_GROUP_AFTER_CNL st
      | State.ERROR \<Rightarrow> st)"

definition finalTransition :: "Status \<Rightarrow> Status" where
  "finalTransition st =
     (case state st of
        State.REPORT_BODY_METAR \<Rightarrow> st
      | State.REPORT_BODY_TAF \<Rightarrow> st
      | State.REMARK_METAR \<Rightarrow> st
      | State.REMARK_TAF \<Rightarrow> st
      | State.MAINTENANCE_INDICATOR \<Rightarrow> st
      | State.NIL \<Rightarrow> st
      | State.CNL \<Rightarrow> st
      | State.ERROR \<Rightarrow> st
      | State.REPORT_TYPE_OR_LOCATION \<Rightarrow> setError Error.EMPTY_REPORT st
      | State.CORRECTION \<Rightarrow> setError Error.UNEXPECTED_REPORT_END st
      | State.LOCATION \<Rightarrow> setError Error.UNEXPECTED_REPORT_END st
      | State.REPORT_TIME \<Rightarrow> setError Error.UNEXPECTED_REPORT_END st
      | State.TIME_SPAN \<Rightarrow> setError Error.UNEXPECTED_REPORT_END st
      | State.REPORT_BODY_BEGIN_METAR \<Rightarrow> setError Error.UNEXPECTED_REPORT_END st
      | State.REPORT_BODY_BEGIN_METAR_REPEAT_PARSE \<Rightarrow>
          setError Error.UNEXPECTED_REPORT_END st
      | State.REPORT_BODY_BEGIN_TAF \<Rightarrow> setError Error.UNEXPECTED_REPORT_END st)"

subsection \<open>Splitting the report at white space\<close>

text \<open>
  \<^verbatim>\<open>parseInternal\<close> walks the report with a \<^verbatim>\<open>std::sregex_token_iterator\<close> on the
  regular expression \<^verbatim>\<open>\s+\<close> with submatch \<open>-1\<close>: it yields the text before each
  maximal run of white space (empty when the report starts with white space), and then
  the text after the last run when that text is not empty. A report with no white space
  at all, the empty report too, is one token. \<^verbatim>\<open>\s\<close> matches the six white-space
  bytes of the C locale.
\<close>

definition isSpace :: "char \<Rightarrow> bool" where
  "isSpace c = ((of_char c :: nat) = 32 \<or> (9 \<le> (of_char c :: nat) \<and> (of_char c :: nat) \<le> 13))"

text \<open>
  One byte of the scan: the tokens completed so far, the bytes of the token being read,
  and whether the last byte was white space.
\<close>

fun scanChar :: "string list \<times> string \<times> bool \<Rightarrow> char \<Rightarrow> string list \<times> string \<times> bool" where
  "scanChar (done, cur, inSpace) c =
     (if isSpace c then (if inSpace then (done, [], True) else (done @ [cur], [], True))
      else (done, cur @ [c], False))"

definition sregexTokens :: "string \<Rightarrow> string list" where
  "sregexTokens report =
     (if report = [] then [[]]
      else case foldl scanChar ([], [], False) report of
             (done, cur, inSpace) \<Rightarrow> done @ (if cur = [] then [] else [cur]))"

subsection \<open>GenericParser\<close>

text \<open>
  \<^verbatim>\<open>GenericParser\<close> is a template: its arguments are the group parser
  (\<^verbatim>\<open>GenericGroupParser::parse\<close>) and the function \<^verbatim>\<open>SyntaxGroupGetter\<close>, and it calls
  the \<^verbatim>\<open>combine\<close> of the group type. The three are the fields of \<open>TemplateArgs\<close>, for
  a group type \<open>'g\<close>.
\<close>

record 'g TemplateArgs =
  tParse :: "string \<Rightarrow> ReportPart \<Rightarrow> 'g"
  tSyntaxGroup :: "'g \<Rightarrow> SyntaxGroup"
  tCombine :: "'g \<Rightarrow> 'g \<Rightarrow> 'g option"

text \<open>
  The \<^verbatim>\<open>do ... while (status.isReparseRequired())\<close> of \<^verbatim>\<open>parseInternal\<close>: the token is
  parsed under the report part of the current state and the state machine moves, again
  while the new state asks for it. The result is the last group parsed, the new status,
  and the report parts the token was parsed under, in order (a log the source does not
  keep; the monotonicity of the report parts is stated on it).
\<close>

function parseAndTransition ::
  "'g TemplateArgs \<Rightarrow> string \<Rightarrow> Status \<Rightarrow> 'g \<times> Status \<times> ReportPart list" where
  "parseAndTransition T groupString st =
     (let grp = tParse T groupString (getReportPart st);
          st' = transition (tSyntaxGroup T grp) st
      in if isReparseRequired st'
         then (case parseAndTransition T groupString st' of
                 (grp', st'', parts) \<Rightarrow> (grp', st'', getReportPart st # parts))
         else (grp, st', [getReportPart st]))"
  by pat_completeness auto

text \<open>
  The loop ends: only a transition out of \<^verbatim>\<open>TIME_SPAN\<close> reaches the state that asks
  for a second parse, and no transition out of that state comes back to it.
\<close>

termination parseAndTransition
proof (relation "measure (\<lambda>(T, groupString, st). if isReparseRequired st then 0 else 1)")
  show "wf (measure (\<lambda>(T :: 'a TemplateArgs, groupString :: string, st).
          if isReparseRequired st then 0 else (1::nat)))"
    by simp
next
  fix T :: "'a TemplateArgs" and groupString :: string and st :: Status and x xa
  assume "x = tParse T groupString (getReportPart st)"
    and xa: "xa = transition (tSyntaxGroup T x) st"
    and re: "isReparseRequired xa"
  have "\<not> isReparseRequired st"
    using re unfolding xa
    by (cases "state st"; cases "tSyntaxGroup T x")
       (simp_all add: isReparseRequired_def transition_def setState_def setError_def
         setReportType_def getReportType_def
         transitionFromReportTypeOrLocation_def transitionFromCorrecton_def
         transitionFromReportTime_def transitionFromTimeSpan_def
         transitionFromReportBodyBeginMetar_def transitionFromReportBodyMetar_def
         transitionFromReportBodyBeginTaf_def transitionFromReportBodyTaf_def)
  then show "((T, groupString, xa), T, groupString, st)
    \<in> measure (\<lambda>(T, groupString, st). if isReparseRequired st then 0 else 1)"
    using re by simp
qed

declare parseAndTransition.simps [simp del]

text \<open>
  The local variables of \<^verbatim>\<open>parseInternal\<close>: \<open>reportEnd\<close>, \<open>status\<close>, the groups of
  \<open>result\<close> and those of \<open>extresult\<close>. Three more fields log what the loop does, for
  the statement of its properties: the tokens the loop has taken from the iterator, the
  report parts its tokens were parsed under, and how many times a group was combined
  with the last one.
\<close>

record 'g Locals =
  reportEnd :: bool
  status :: Status
  result :: "'g list"
  extresult :: "('g \<times> ReportPart \<times> string) list"
  consumed :: "string list"
  dispatched :: "ReportPart list"
  combines :: nat

definition Locals_init :: "'g Locals" where
  "Locals_init =
     \<lparr>reportEnd = False, status = Status_init, result = [], extresult = [],
      consumed = [], dispatched = [], combines = 0\<rparr>"

definition getLastGroup :: "'g list \<Rightarrow> 'g option" where
  "getLastGroup groups = (if groups = [] then None else Some (last groups))"

definition getLastGroupExt :: "('g \<times> ReportPart \<times> string) list \<Rightarrow> 'g option" where
  "getLastGroupExt extgroups = (if extgroups = [] then None else Some (fst (last extgroups)))"

definition combineWithLastGroup :: "'g TemplateArgs \<Rightarrow> 'g option \<Rightarrow> 'g \<Rightarrow> 'g option" where
  "combineWithLastGroup T lastGroup grp =
     (case lastGroup of None \<Rightarrow> None | Some previousGroup \<Rightarrow> tCombine T previousGroup grp)"

text \<open>
  \<^verbatim>\<open>saveToResult\<close> for a group: a combined group is assigned to \<^verbatim>\<open>groups.back()\<close>,
  any other group is pushed back.
\<close>

definition saveToResult :: "'g list \<Rightarrow> 'g \<Rightarrow> 'g option \<Rightarrow> 'g list" where
  "saveToResult groups grp combinedGroup =
     (case combinedGroup of
        Some combined \<Rightarrow> groups[length groups - 1 := combined]
      | None \<Rightarrow> groups @ [grp])"

definition saveToExtResult ::
  "('g \<times> ReportPart \<times> string) list \<Rightarrow> 'g \<Rightarrow> 'g option \<Rightarrow> ReportPart \<Rightarrow> string \<Rightarrow>
   ('g \<times> ReportPart \<times> string) list" where
  "saveToExtResult extgroups grp combinedGroup reportPart groupString =
     (case combinedGroup of
        Some combined \<Rightarrow>
          (let newGroupStr = snd (snd (last extgroups)) @ '' '' @ groupString
           in extgroups[length extgroups - 1 := (combined, reportPart, newGroupStr)])
      | None \<Rightarrow> extgroups @ [(grp, reportPart, groupString)])"

text \<open>
  The statement \<^verbatim>\<open>if (groupString.length()) { ... }\<close> of the loop body: a group string
  that is not empty is parsed, the status makes its transitions, and the group is
  combined with the last group or saved; an empty group string changes nothing.
\<close>

definition parseGroupString :: "'g TemplateArgs \<Rightarrow> bool \<Rightarrow> string \<Rightarrow> 'g Locals \<Rightarrow> 'g Locals" where
  "parseGroupString T extendedResult groupString L1 =
     (if length groupString \<noteq> 0 then
        (let reportPart = getReportPart (status L1);
             (grp, st', parts) = parseAndTransition T groupString (status L1);
             lastGroup = (if \<not> extendedResult then getLastGroup (result L1)
                          else getLastGroupExt (extresult L1));
             combinedGroup = combineWithLastGroup T lastGroup grp
         in L1\<lparr>status := st',
                result := (if \<not> extendedResult
                           then saveToResult (result L1) grp combinedGroup
                           else result L1),
                extresult := (if \<not> extendedResult then extresult L1
                              else saveToExtResult (extresult L1) grp combinedGroup
                                     reportPart groupString),
                dispatched := dispatched L1 @ parts,
                combines := combines L1 + (if combinedGroup = None then 0 else 1)\<rparr>)
      else L1)"

text \<open>
  The body of the \<^verbatim>\<open>while\<close> loop for the token \<open>tok\<close> the iterator points to: a token
  whose last character is \<^verbatim>\<open>'='\<close> sets \<^verbatim>\<open>reportEnd\<close> and loses that one character
  (\<^verbatim>\<open>pop_back\<close>), and what is left is the group string. The source reads
  \<^verbatim>\<open>groupString.back()\<close> of an empty token too, which C++ leaves undefined; the model
  takes an empty token not to end in \<^verbatim>\<open>'='\<close>.
\<close>

definition loopBody :: "'g TemplateArgs \<Rightarrow> bool \<Rightarrow> string \<Rightarrow> 'g Locals \<Rightarrow> 'g Locals" where
  "loopBody T extendedResult tok L =
     (let endChar = (tok \<noteq> [] \<and> last tok = CHR ''='');
          groupString = (if endChar then butlast tok else tok);
          L1 = L\<lparr>reportEnd := (if endChar then True else reportEnd L),
                 consumed := consumed L @ [tok]\<rparr>
      in parseGroupString T extendedResult groupString L1)"

text \<open>
  The \<^verbatim>\<open>while\<close> loop over the tokens still to come: it stops at the end of the
  tokens, after a token that ended in \<^verbatim>\<open>'='\<close>, and on an error.
\<close>

fun parseLoop :: "'g TemplateArgs \<Rightarrow> bool \<Rightarrow> string list \<Rightarrow> 'g Locals \<Rightarrow> 'g Locals" where
  "parseLoop T extendedResult [] L = L"
| "parseLoop T extendedResult (tok # toks) L =
     (if \<not> reportEnd L \<and> \<not> isError (status L)
      then parseLoop T extendedResult toks (loopBody T extendedResult tok L)
      else L)"

text \<open>
  \<^verbatim>\<open>parseInternal\<close>, up to its \<^verbatim>\<open>return\<close>: the local variables after the loop and the
  final transition.
\<close>

definition parseInternal :: "'g TemplateArgs \<Rightarrow> string \<Rightarrow> bool \<Rightarrow> 'g Locals" where
  "parseInternal T report extendedResult =
     (let L = parseLoop T extendedResult (sregexTokens report) Locals_init
      in L\<lparr>status := finalTransition (status L)\<rparr>)"

record 'g Result =
  reportType :: ReportType
  error :: Error
  groups :: "'g list"

record 'g ExtendedResult =
  ext_reportType :: ReportType
  ext_error :: Error
  extgroups :: "('g \<times> ReportPart \<times> string) list"

text \<open>
  \<^verbatim>\<open>parse\<close> and \<^verbatim>\<open>extendedParse\<close>: the \<^verbatim>\<open>Result\<close> and the \<^verbatim>\<open>ExtendedResult\<close> that
  \<^verbatim>\<open>parseInternal\<close> returns, the report type and the error saved from the status.
\<close>

definition parse :: "'g TemplateArgs \<Rightarrow> string \<Rightarrow> 'g Result" where
  "parse T report =
     (let L = parseInternal T report False
      in \<lparr>reportType = getReportType (status L), error = getError (status L),
          groups = result L\<rparr>)"

definition extendedParse :: "'g TemplateArgs \<Rightarrow> string \<Rightarrow> 'g ExtendedResult" where
  "extendedParse T report =
     (let L = parseInternal T report True
      in \<lparr>ext_reportType = getReportType (status L), ext_error = getError (status L),
          extgroups = extresult L\<rparr>)"

text \<open>
  \<^verbatim>\<open>Parser\<close> is \<^verbatim>\<open>GenericParser<GroupParser, getSyntaxGroup>\<close>.
\<close>

definition Parser :: "'x Unmodelled \<Rightarrow> 'x Group TemplateArgs" where
  "Parser U =
     \<lparr>tParse = GroupParser_parse U, tSyntaxGroup = getSyntaxGroup U,
      tCombine = Group_combine U\<rparr>"

section \<open>Shapes the specification names\<close>

text \<open>
  The order of the report parts: the header, then the body of a METAR or of a TAF, then
  the remarks, then the part \<^verbatim>\<open>UNKNOWN\<close> of the terminal states.
\<close>

fun partRank :: "ReportPart \<Rightarrow> nat" where
  "partRank ReportPart.HEADER = 0"
| "partRank ReportPart.METAR = 1"
| "partRank ReportPart.TAF = 1"
| "partRank ReportPart.RMK = 2"
| "partRank ReportPart.UNKNOWN = 3"

text \<open>The group string of a token: the token without a final \<^verbatim>\<open>'='\<close>.\<close>

definition groupStringOf :: "string \<Rightarrow> string" where
  "groupStringOf tok = (if tok \<noteq> [] \<and> last tok = CHR ''='' then butlast tok else tok)"

text \<open>The shape \<^verbatim>\<open>SLPnnn\<close>, with \<^verbatim>\<open>nnn\<close> three decimal digits.\<close>

definition slpShape :: "string \<Rightarrow> bool" where
  "slpShape s = (length s = 6 \<and> take 3 s = ''SLP'' \<and> list_all isDigit (drop 3 s))"

text \<open>
  The single-precision numbers: \<open>m \<cdot> 2\<^sup>e\<close> with an integer \<open>m\<close> of at most 24 binary digits
  and \<open>e\<close> from \<open>-149\<close> to \<open>104\<close>. \<open>nearestSingle x v\<close>: \<open>v\<close> is a single-precision number and
  no single-precision number is nearer to \<open>x\<close>.
\<close>

definition isSingle :: "real \<Rightarrow> bool" where
  "isSingle v =
     (\<exists>(m::int) (e::int). \<bar>m\<bar> < 2 ^ 24 \<and> - 149 \<le> e \<and> e \<le> 104 \<and> v = of_int m * 2 powi e)"

definition nearestSingle :: "real \<Rightarrow> real \<Rightarrow> bool" where
  "nearestSingle x v = (isSingle v \<and> (\<forall>w. isSingle w \<longrightarrow> \<bar>v - x\<bar> \<le> \<bar>w - x\<bar>))"



section \<open>Invariants of the parser\<close>

text \<open>The status has an error exactly when the state is \<^verbatim>\<open>ERROR\<close>.\<close>

definition errorIffErrorState :: "Status \<Rightarrow> bool" where
  "errorIffErrorState st = (isError st = (state st = State.ERROR))"

text \<open>
  The report parts logged so far are in order, and none comes after the part of the
  current state.
\<close>

definition dispatchedInOrder :: "'g Locals \<Rightarrow> bool" where
  "dispatchedInOrder L =
     (sorted_wrt (\<lambda>p q. partRank p \<le> partRank q) (dispatched L) \<and>
      (\<forall>p \<in> set (dispatched L). partRank p \<le> partRank (getReportPart (status L))))"

text \<open>
  The groups kept and the combinations made add up to the tokens taken whose group
  string is not empty.
\<close>

definition groupsCounted :: "bool \<Rightarrow> 'g Locals \<Rightarrow> bool" where
  "groupsCounted e L =
     ((if e then length (extresult L) else length (result L)) + combines L =
      length (filter (\<lambda>tok. groupStringOf tok \<noteq> []) (consumed L)))"

text \<open>What \<^verbatim>\<open>parse\<close> and \<^verbatim>\<open>extendedParse\<close> read of the local variables.\<close>

definition outcome :: "'g Locals \<Rightarrow> Status \<times> 'g list \<times> ('g \<times> ReportPart \<times> string) list" where
  "outcome L = (status L, result L, extresult L)"

section \<open>Properties of the primitive value types\<close>

subsection \<open>Decimal numbers\<close>

lemma strToUintLoop_None: "\<not> list_all isDigit cs \<Longrightarrow> strToUintLoop cs v = None"
  by (induction cs arbitrary: v) (auto simp: isDigit_def)

lemma strToUintLoop_digits:
  "list_all isDigit cs \<Longrightarrow> length cs \<le> 9 \<Longrightarrow> v < 10 ^ (9 - length cs) \<Longrightarrow>
   strToUintLoop cs v = Some (foldl (\<lambda>v c. v * 10 + digitValue c) v cs)"
proof (induction cs arbitrary: v)
  case Nil
  then show ?case by simp
next
  case (Cons c cs)
  have d: "digitValue c \<le> 9" using Cons.prems(1) unfolding isDigit_def digitValue_def by auto
  have "v * 10 + digitValue c < 10 ^ (9 - length cs)"
  proof -
    have "Suc v \<le> 10 ^ (9 - length (c # cs))" using Cons.prems(3) by simp
    then have "Suc v * 10 \<le> 10 ^ (9 - length (c # cs)) * 10" by (rule mult_le_mono1)
    also have "\<dots> = 10 ^ (Suc (9 - length (c # cs)))" by simp
    also have "Suc (9 - length (c # cs)) = 9 - length cs" using Cons.prems(2) by simp
    finally show ?thesis using d by simp
  qed
  moreover have "(10::nat) ^ (9 - length cs) \<le> 10 ^ 9" by (rule power_increasing) simp_all
  ultimately have lt: "v * 10 + digitValue c < 10 ^ (9 - length cs)"
    and small: "v * 10 + digitValue c < 2 ^ 32" by simp_all
  show ?case using Cons.prems Cons.IH [OF _ _ lt] small
    by (simp add: isDigit_def digitValue_def)
qed

lemma strToUint_decimal:
  "n \<le> 9 \<Longrightarrow> strToUint s p n =
     (if s = [] \<or> n = 0 \<or> p + n > length s then None
      else if list_all isDigit (take n (drop p s)) then Some (decimalValue (take n (drop p s)))
      else None)"
  by (auto simp: strToUint_def decimalValue_def strToUintLoop_None strToUintLoop_digits)

lemma decimalValue_bound: "list_all isDigit s \<Longrightarrow> Suc (decimalValue s) \<le> 10 ^ length s"
proof (induction s rule: rev_induct)
  case Nil
  then show ?case by (simp add: decimalValue_def)
next
  case (snoc c s)
  have d: "digitValue c \<le> 9" using snoc.prems unfolding isDigit_def digitValue_def by auto
  have "Suc (decimalValue s) * 10 \<le> 10 ^ length s * 10"
    using snoc by (intro mult_le_mono1) simp
  then show ?case using d by (simp add: decimalValue_def)
qed

lemma take3_SLP: "length s = 6 \<Longrightarrow>
  (take 3 s = ''SLP'') = (s ! 0 = CHR ''S'' \<and> s ! 1 = CHR ''L'' \<and> s ! 2 = CHR ''P'')"
  by (cases s; cases "tl s"; cases "tl (tl s)") auto

subsection \<open>Rounding\<close>

lemma bitlen_numeral:
  "bitlen 0 = 0"
  "bitlen (Suc 0) = Suc 0"
  "bitlen (numeral k) = Suc (bitlen (numeral k div 2))"
  by (simp_all add: bitlen.simps)

lemma bitlen_less: "N < 2 ^ bitlen N"
proof (induction N rule: bitlen.induct)
  case (1 n)
  show ?case
  proof (cases "n = 0")
    case True
    then show ?thesis by (simp add: bitlen.simps)
  next
    case False
    then have "n div 2 < 2 ^ bitlen (n div 2)" using "1.IH" by simp
    then have "n < 2 * 2 ^ bitlen (n div 2)" by linarith
    then show ?thesis using False by (simp add: bitlen.simps [of n])
  qed
qed

lemma bitlen_ge: "N \<noteq> 0 \<Longrightarrow> 2 ^ (bitlen N - 1) \<le> N"
proof (induction N rule: bitlen.induct)
  case (1 n)
  have b: "bitlen n = Suc (bitlen (n div 2))" using "1.prems" by (simp add: bitlen.simps [of n])
  show ?case
  proof (cases "n div 2 = 0")
    case True
    then show ?thesis using "1.prems" b by (simp add: bitlen.simps [of 0])
  next
    case False
    then have ih: "2 ^ (bitlen (n div 2) - 1) \<le> n div 2" using "1.IH" "1.prems" by simp
    have pos: "bitlen (n div 2) \<noteq> 0" using False by (simp add: bitlen.simps [of "n div 2"])
    then have "(2::nat) ^ bitlen (n div 2) = 2 * 2 ^ (bitlen (n div 2) - 1)"
      by (cases "bitlen (n div 2)") simp_all
    then have "(2::nat) ^ bitlen (n div 2) \<le> n" using ih by linarith
    then show ?thesis by (simp add: b)
  qed
qed

lemma bitlen_le: "N < 2 ^ k \<Longrightarrow> bitlen N \<le> k"
proof (cases "N = 0")
  case True
  then show ?thesis by (simp add: bitlen.simps [of 0])
next
  case False
  assume "N < 2 ^ k"
  with bitlen_ge [OF False] have "(2::nat) ^ (bitlen N - 1) < 2 ^ k" by linarith
  then have "bitlen N - 1 < k" by simp
  then show ?thesis by linarith
qed

lemma bitlen_eq: "2 ^ k \<le> N \<Longrightarrow> N < 2 ^ Suc k \<Longrightarrow> bitlen N = Suc k"
proof -
  assume lo: "2 ^ k \<le> N" and hi: "N < 2 ^ Suc k"
  from hi have "bitlen N \<le> Suc k" by (rule bitlen_le)
  moreover have "(2::nat) ^ k < 2 ^ bitlen N" using lo bitlen_less [of N] by linarith
  then have "k < bitlen N" by simp
  ultimately show ?thesis by linarith
qed

lemma roundBits_exact: "bitlen N \<le> p \<Longrightarrow> roundBits p N = N"
  by (simp add: roundBits_def)

lemma roundBits_near:
  assumes "p < bitlen N"
  shows "\<exists>k. roundBits p N = k * 2 ^ (bitlen N - p)"
    and "roundBits p N \<le> N + 2 ^ (bitlen N - p - 1)"
    and "N \<le> roundBits p N + 2 ^ (bitlen N - p - 1)"
proof -
  define sh where "sh = bitlen N - p"
  define q where "q = N div 2 ^ sh"
  define r where "r = N mod 2 ^ sh"
  define half :: nat where "half = 2 ^ (sh - 1)"
  have sh: "0 < sh" using assms by (simp add: sh_def)
  then have two: "(2::nat) ^ sh = 2 * half" by (cases sh) (simp_all add: half_def)
  have "N = q * 2 ^ sh + r" unfolding q_def r_def by (rule div_mult_mod_eq [symmetric])
  then have N: "N = q * (2 * half) + r" unfolding two .
  have "r < 2 ^ sh" unfolding r_def by simp
  then have r: "r < 2 * half" unfolding two .
  have "roundBits p N = (if r < half \<or> (r = half \<and> even q) then q else q + 1) * 2 ^ sh"
    using assms by (simp add: roundBits_def Let_def sh_def q_def r_def half_def)
  then have rb: "roundBits p N =
      (if r < half \<or> (r = half \<and> even q) then q else q + 1) * (2 * half)"
    unfolding two .
  show "\<exists>k. roundBits p N = k * 2 ^ (bitlen N - p)"
    unfolding rb sh_def [symmetric] two by blast
  show "roundBits p N \<le> N + 2 ^ (bitlen N - p - 1)"
    unfolding sh_def [symmetric] half_def [symmetric] rb using N r by (auto simp: algebra_simps)
  show "N \<le> roundBits p N + 2 ^ (bitlen N - p - 1)"
    unfolding sh_def [symmetric] half_def [symmetric] rb using N r by (auto simp: algebra_simps)
qed

lemma roundBits_error:
  assumes "N < 2 ^ (p + s)" and "0 < s"
  shows "roundBits p N \<le> N + 2 ^ (s - 1) \<and> N \<le> roundBits p N + 2 ^ (s - 1)"
proof (cases "bitlen N \<le> p")
  case True
  then show ?thesis by (simp add: roundBits_exact)
next
  case False
  then have p: "p < bitlen N" by simp
  have "bitlen N \<le> p + s" using assms(1) by (rule bitlen_le)
  then have "bitlen N - p - 1 \<le> s - 1" by linarith
  then have "(2::nat) ^ (bitlen N - p - 1) \<le> 2 ^ (s - 1)" by (rule power_increasing) simp
  then show ?thesis using roundBits_near(2,3) [OF p] by linarith
qed


lemma single_cases:
  assumes w: "isSingle w" and c: "c \<le> 23"
  shows "(\<exists>j::int. w = of_int j / 2 ^ c) \<or> \<bar>w\<bar> < 2 ^ (23 - c)"
proof -
  from w obtain m e :: int where m: "\<bar>m\<bar> < 2 ^ 24" and w: "w = of_int m * 2 powi e"
    unfolding isSingle_def by blast
  show ?thesis
  proof (cases "- int c \<le> e")
    case True
    then have "e = int (nat (e + int c)) - int c" by simp
    then have "(2::real) powi e = 2 ^ nat (e + int c) / 2 ^ c"
      by (metis power_int_diff power_int_of_nat zero_neq_numeral)
    then have "w = of_int (m * 2 ^ nat (e + int c)) / 2 ^ c"
      by (simp add: w)
    then show ?thesis by blast
  next
    case False
    then have "e \<le> - int (Suc c)" by simp
    then have "(2::real) powi e \<le> 2 powi (- int (Suc c))"
      by (intro power_int_increasing) simp_all
    also have "\<dots> = 1 / 2 ^ Suc c"
      by (metis power_int_minus power_int_of_nat inverse_eq_divide)
    finally have p: "(2::real) powi e \<le> 1 / 2 ^ Suc c" .
    have "\<bar>w\<bar> = \<bar>real_of_int m\<bar> * 2 powi e"
      by (simp add: w abs_mult)
    also have "\<dots> \<le> \<bar>real_of_int m\<bar> * (1 / 2 ^ Suc c)"
      using p by (intro mult_left_mono) simp_all
    also have "\<dots> < 2 ^ 24 * (1 / 2 ^ Suc c)"
    proof -
      have "\<bar>real_of_int m\<bar> < 2 ^ 24"
        using m by (metis of_int_abs of_int_less_numeral_power_cancel_iff)
      then show ?thesis by (intro mult_strict_right_mono) simp_all
    qed
    also have "\<dots> = 2 ^ 23 / 2 ^ c" by simp
    also have "\<dots> = 2 ^ (23 - c)"
      using c by (simp add: power_diff)
    finally show ?thesis by blast
  qed
qed

lemma grid_far:
  fixes i j :: int
  assumes "i \<noteq> j"
  shows "2 * (1 / 2 ^ Suc c) \<le> \<bar>of_int i / 2 ^ c - of_int j / (2::real) ^ c\<bar>"
proof -
  from assms have "1 \<le> \<bar>i - j\<bar>" by simp
  then have "1 \<le> \<bar>real_of_int i - real_of_int j\<bar>"
    by (metis of_int_1_le_iff of_int_abs of_int_diff)
  then have "1 / 2 ^ c \<le> \<bar>real_of_int i - real_of_int j\<bar> / 2 ^ c"
    by (simp add: divide_right_mono)
  also have "\<dots> = \<bar>of_int i / 2 ^ c - of_int j / 2 ^ c\<bar>"
    by (simp add: diff_divide_distrib [symmetric])
  finally show ?thesis by simp
qed

lemma grid_nearest:
  fixes x :: real and i j :: int
  assumes "\<bar>of_int i / 2 ^ c - x\<bar> \<le> 1 / 2 ^ Suc c"
  shows "\<bar>of_int i / 2 ^ c - x\<bar> \<le> \<bar>of_int j / 2 ^ c - x\<bar>"
proof (cases "i = j")
  case True
  then show ?thesis by simp
next
  case False
  from grid_far [OF this, of c] assms show ?thesis by linarith
qed

lemma grid_nearest_strict:
  fixes x :: real and i j :: int
  assumes "i \<noteq> j" and "\<bar>of_int i / 2 ^ c - x\<bar> < 1 / 2 ^ Suc c"
  shows "\<bar>of_int i / 2 ^ c - x\<bar> < \<bar>of_int j / 2 ^ c - x\<bar>"
  using grid_far [OF assms(1), of c] assms(2) by linarith

lemma nearestSingle_grid:
  assumes c: "c \<le> 23" and k: "k < 2 ^ 24" and x: "2 ^ (23 - c) \<le> x"
    and near: "\<bar>real k / 2 ^ c - x\<bar> \<le> 1 / 2 ^ Suc c"
  shows "nearestSingle x (real k / 2 ^ c)"
  unfolding nearestSingle_def
proof (intro conjI allI impI)
  have "\<bar>int k\<bar> < 2 ^ 24" using k by simp
  moreover have "real k / 2 ^ c = of_int (int k) * 2 powi (- int c)"
    by (simp add: power_int_minus field_simps)
  ultimately show "isSingle (real k / 2 ^ c)"
    unfolding isSingle_def using c by (intro exI [of _ "int k"] exI [of _ "- int c"]) simp
next
  fix w assume w: "isSingle w"
  have near': "\<bar>of_int (int k) / 2 ^ c - x\<bar> \<le> 1 / 2 ^ Suc c" using near by simp
  from single_cases [OF w c] show "\<bar>real k / 2 ^ c - x\<bar> \<le> \<bar>w - x\<bar>"
  proof
    assume "\<exists>j::int. w = of_int j / 2 ^ c"
    then obtain j :: int where "w = of_int j / 2 ^ c" ..
    with grid_nearest [OF near', of j] show ?thesis by simp
  next
    assume small: "\<bar>w\<bar> < 2 ^ (23 - c)"
    have "(2::real) ^ (23 - c) = of_int (2 ^ 23) / 2 ^ c"
      using c by (simp add: power_diff)
    with grid_nearest [OF near', of "2 ^ 23"]
    have "\<bar>real k / 2 ^ c - x\<bar> \<le> \<bar>2 ^ (23 - c) - x\<bar>" by simp
    also have "\<dots> \<le> \<bar>w - x\<bar>" using small x by linarith
    finally show ?thesis .
  qed
qed


lemma nearestSingle_grid_unique:
  assumes c: "c \<le> 23" and x: "2 ^ (23 - c) \<le> x"
    and near: "\<bar>real k / 2 ^ c - x\<bar> < 1 / 2 ^ Suc c"
    and v: "nearestSingle x (real k / 2 ^ c)" and w: "nearestSingle x w"
  shows "w = real k / 2 ^ c"
proof -
  have sw: "isSingle w" and le: "\<bar>w - x\<bar> \<le> \<bar>real k / 2 ^ c - x\<bar>"
    using v w unfolding nearestSingle_def by blast+
  have near': "\<bar>of_int (int k) / 2 ^ c - x\<bar> \<le> 1 / 2 ^ Suc c" using near by simp
  from single_cases [OF sw c] show ?thesis
  proof
    assume "\<exists>j::int. w = of_int j / 2 ^ c"
    then obtain j :: int where j: "w = of_int j / 2 ^ c" ..
    have "int k = j"
    proof (rule ccontr)
      assume ne: "int k \<noteq> j"
      have "\<bar>of_int (int k) / 2 ^ c - x\<bar> < 1 / 2 ^ Suc c" using near by simp
      from grid_nearest_strict [OF ne this]
      have "\<bar>real k / 2 ^ c - x\<bar> < \<bar>w - x\<bar>" unfolding j by simp
      with le show False by linarith
    qed
    then show ?thesis using j by auto
  next
    assume small: "\<bar>w\<bar> < 2 ^ (23 - c)"
    have "(2::real) ^ (23 - c) = of_int (2 ^ 23) / 2 ^ c"
      using c by (simp add: power_diff)
    with grid_nearest [OF near', of "2 ^ 23"]
    have "\<bar>real k / 2 ^ c - x\<bar> \<le> \<bar>2 ^ (23 - c) - x\<bar>" by simp
    also have "\<dots> < \<bar>w - x\<bar>" using small x by linarith
    finally have "\<bar>real k / 2 ^ c - x\<bar> < \<bar>w - x\<bar>" .
    with le show ?thesis by linarith
  qed
qed

text \<open>The constant is the \<^verbatim>\<open>double\<close> nearest to one tenth: it is \<open>m \<cdot> 2\<^sup>-\<^sup>5\<^sup>6\<close> with \<open>m\<close> of 53
  binary digits, and less than the half of \<open>2\<^sup>-\<^sup>5\<^sup>6\<close> away from one tenth.\<close>

lemma slpDecimalPointShift_nearest:
  "2 ^ 52 \<le> 2 * slpDecimalPointShift \<and> 2 * slpDecimalPointShift < 2 ^ 53 \<and>
   \<bar>real slpDecimalPointShift / 2 ^ 55 - 1 / 10\<bar> < 1 / 2 ^ 57"
  by (simp add: slpDecimalPointShift_def)

subsection \<open>The sea level pressure\<close>

text \<open>
  The number stored for the code \<open>n\<close>, with \<open>A = 10 \<cdot> (n \<cdot> 0.1 + base)\<close>: it is a multiple
  \<open>k \<cdot> 2\<^sup>-\<^sup>c\<close> of the spacing of the single-precision numbers around \<open>A / 10\<close>, at most half
  a spacing away from \<open>A / 10\<close>.
\<close>

lemma slpStored_240:
  "roundBits 24 (roundBits 53 (roundBits 53 (240 * slpDecimalPointShift) + 1000 * 2 ^ 55)) =
   2 ^ 23 * 2 ^ 42"
  by (simp add: slpDecimalPointShift_def roundBits_def Let_def bitlen_numeral)

lemma slpStored_grid:
  assumes n: "n < 1000"
  defines "base \<equiv> (if n < 500 then 1000 else 900 :: nat)"
  defines "V \<equiv> roundBits 24 (roundBits 53 (roundBits 53 (n * slpDecimalPointShift) + base * 2 ^ 55))"
  defines "A \<equiv> n + 10 * base"
  defines "c \<equiv> (if A < 10240 then 14 else 13 :: nat)"
  shows "\<exists>k. V = k * 2 ^ (55 - c) \<and> k < 2 ^ 24 \<and>
           10 * k \<le> A * 2 ^ c + 5 \<and> A * 2 ^ c \<le> 10 * k + 5"
proof (cases "n = 240")
  case True
  then show ?thesis
    using slpStored_240 unfolding V_def A_def c_def base_def
    by (intro exI [of _ "2 ^ 23"]) simp
next
  case False
  define sh where "sh = 55 - c"
  define P where "P = n * slpDecimalPointShift"
  define Dp where "Dp = roundBits 53 P"
  define S0 where "S0 = Dp + base * 2 ^ 55"
  define Ds where "Ds = roundBits 53 S0"
  have V: "V = roundBits 24 Ds"
    by (simp add: V_def Ds_def S0_def Dp_def P_def)
  have base: "base = 1000 \<or> base = 900" by (simp add: base_def)
  have Arange: "9500 \<le> A \<and> A \<le> 10499" "A \<noteq> 10240"
    using n False by (auto simp: A_def base_def)
  have P10: "10 * P = n * 2 ^ 55 + 2 * n" by (simp add: P_def slpDecimalPointShift_def)
  have "P < 2 ^ (53 + 9)" using n by (simp add: P_def slpDecimalPointShift_def)
  from roundBits_error [OF this] have Dp: "Dp \<le> P + 256" "P \<le> Dp + 256"
    by (simp_all add: Dp_def)
  have "S0 < 2 ^ (53 + 13)" using Dp P10 n base by (auto simp: S0_def)
  from roundBits_error [OF this] have Ds: "Ds \<le> S0 + 4096" "S0 \<le> Ds + 4096"
    by (simp_all add: Ds_def)
  have S10: "10 * S0 = 10 * Dp + 10 * base * 2 ^ 55" by (simp add: S0_def)
  have T: "A * 2 ^ 55 = n * 2 ^ 55 + 10 * base * 2 ^ 55" by (simp add: A_def algebra_simps)
  have near: "10 * Ds \<le> A * 2 ^ 55 + 46000" "A * 2 ^ 55 \<le> 10 * Ds + 46000"
    using Dp Ds P10 S10 T n by linarith+
  have sh: "sh = (if A < 10240 then 41 else 42)" "sh + c = 55"
    by (simp_all add: sh_def c_def)
  have bl: "bitlen Ds = 24 + sh"
  proof (cases "A < 10240")
    case True
    have "2 ^ 64 \<le> Ds" "Ds < 2 ^ Suc 64"
      using near Arange True by simp_all
    then have "bitlen Ds = Suc 64" by (rule bitlen_eq)
    then show ?thesis using True by (simp add: sh)
  next
    case False
    have "2 ^ 65 \<le> Ds" "Ds < 2 ^ Suc 65"
      using near Arange False by simp_all
    then have "bitlen Ds = Suc 65" by (rule bitlen_eq)
    then show ?thesis using False by (simp add: sh)
  qed
  then have lt: "24 < bitlen Ds" by (simp add: sh)
  from roundBits_near [OF lt] bl obtain k where
    k: "V = k * 2 ^ sh"
    and up: "V \<le> Ds + 2 ^ (sh - 1)"
    and down: "Ds \<le> V + 2 ^ (sh - 1)"
    unfolding V by auto
  define t where "t = A * 2 ^ c"
  have "(2::nat) ^ 55 = 2 ^ c * 2 ^ sh"
    unfolding sh(2) [symmetric] by (simp add: power_add)
  then have t: "A * 2 ^ 55 = t * 2 ^ sh"
    unfolding t_def by simp
  have big: "46000 < (2::nat) ^ sh" "(2::nat) ^ sh = 2 * 2 ^ (sh - 1)"
    by (simp_all add: sh)
  have "10 * k * 2 ^ sh < (t + 6) * 2 ^ sh"
    using up near(1) big unfolding k t by (simp add: algebra_simps)
  then have u: "10 * k < t + 6" by simp
  have "t * 2 ^ sh < (10 * k + 6) * 2 ^ sh"
    using down near(2) big unfolding k t by (simp add: algebra_simps)
  then have d: "t < 10 * k + 6" by simp
  have "k < 2 ^ 24"
    using u Arange unfolding t_def c_def by (simp split: if_splits)
  then show ?thesis
    using k u d unfolding t_def sh_def by (intro exI [of _ k]) simp
qed

text \<open>The stored number is the single-precision number nearest to \<open>n \<cdot> 0.1 + base\<close>, and
  the only one.\<close>

lemma slpStored_nearest:
  assumes n: "n < 1000"
  defines "base \<equiv> (if n < 500 then 1000 else 900 :: nat)"
  defines "V \<equiv> roundBits 24 (roundBits 53 (roundBits 53 (n * slpDecimalPointShift) + base * 2 ^ 55))"
  defines "x \<equiv> real n * 0.1 + (if n < 500 then 1000 else 900)"
  shows "nearestSingle x (real V / 2 ^ 55) \<and>
         (\<forall>w. nearestSingle x w \<longrightarrow> w = real V / 2 ^ 55)"
proof -
  define A where "A = n + 10 * base"
  define c :: nat where "c = (if A < 10240 then 14 else 13)"
  from slpStored_grid [OF n] obtain k where
    V: "V = k * 2 ^ (55 - c)" and k: "k < 2 ^ 24"
    and u: "10 * k \<le> A * 2 ^ c + 5" and d: "A * 2 ^ c \<le> 10 * k + 5"
    unfolding V_def A_def c_def base_def by blast
  have c: "c \<le> 23" "c \<le> 55" by (simp_all add: c_def)
  have "even (A * 2 ^ c)" "even (10 * k)" by (simp_all add: c_def)
  with u d have "10 * k \<le> A * 2 ^ c + 4" "A * 2 ^ c \<le> 10 * k + 4"
    by presburger+
  then have "real (10 * k) \<le> real (A * 2 ^ c + 4)" "real (A * 2 ^ c) \<le> real (10 * k + 4)"
    by (simp_all only: of_nat_le_iff)
  then have b: "\<bar>10 * real k - real A * 2 ^ c\<bar> \<le> 4" by simp
  have x: "x = real A / 10" by (simp add: x_def A_def base_def)
  have "(2::real) ^ (55 - c) = 2 ^ 55 / 2 ^ c"
    using c by (simp add: power_diff)
  then have v: "real V / 2 ^ 55 = real k / 2 ^ c"
    by (simp add: V)
  have lo: "2 ^ (23 - c) \<le> x"
    using n by (simp add: x c_def A_def base_def)
  have "real k / 2 ^ c - x = (10 * real k - real A * 2 ^ c) / (10 * 2 ^ c)"
    by (simp add: x field_simps)
  then have "\<bar>real k / 2 ^ c - x\<bar> = \<bar>10 * real k - real A * 2 ^ c\<bar> / (10 * 2 ^ c)"
    by (simp add: abs_mult)
  also have "\<dots> \<le> 4 / (10 * 2 ^ c)"
    using b by (intro divide_right_mono) simp_all
  also have "\<dots> < 5 / (10 * 2 ^ c)"
    by (intro divide_strict_right_mono) simp_all
  also have "\<dots> = 1 / 2 ^ Suc c" by simp
  finally have near: "\<bar>real k / 2 ^ c - x\<bar> < 1 / 2 ^ Suc c" .
  then have "\<bar>real k / 2 ^ c - x\<bar> \<le> 1 / 2 ^ Suc c" by simp
  then have ns: "nearestSingle x (real k / 2 ^ c)"
    by (intro nearestSingle_grid c k lo)
  with nearestSingle_grid_unique [OF c(1) lo near] show ?thesis
    unfolding v by blast
qed

lemma fromSlpString_shape:
  "fromSlpString s =
     (if slpShape s
      then let n = decimalValue (drop 3 s)
           in Some \<lparr>pressureValue =
                Some (real (roundBits 24 (roundBits 53 (roundBits 53 (n * slpDecimalPointShift) +
                        (if n < 500 then 1000 else 900) * 2 ^ 55))) / 2 ^ 55),
              pressureUnit = HECTOPASCAL\<rparr>
      else None)"
proof (cases "length s = 6")
  case False
  then show ?thesis by (simp add: fromSlpString_def slpShape_def)
next
  case True
  then have t: "take 3 (drop 3 s) = drop 3 s" by simp
  from True have ne: "s \<noteq> []" by auto
  show ?thesis using True ne
    by (simp add: fromSlpString_def slpShape_def take3_SLP strToUint_decimal t Let_def)
qed

text \<open>
  Claim C8, as the specification states it: \<^verbatim>\<open>Pressure::fromSlpString\<close> returns for
  \<^verbatim>\<open>SLPnnn\<close> a pressure equal to \<open>nnn \<cdot> 0.1 + base\<close>. For \<^verbatim>\<open>SLP982\<close> the field holds
  \<open>16354509 / 16384 = 998.20001220703125\<close>, which is not \<open>982 \<cdot> 0.1 + 900 = 998.2\<close>: the
  latter is no single-precision number.
\<close>

theorem fromSlpString_value_counterexample:
  "fromSlpString ''SLP982'' =
     Some \<lparr>pressureValue = Some (16354509 / 16384), pressureUnit = HECTOPASCAL\<rparr> \<and>
   fromSlpString ''SLP982'' \<noteq>
     Some \<lparr>pressureValue = Some (982 * 0.1 + 900), pressureUnit = HECTOPASCAL\<rparr> \<and>
   \<not> isSingle (982 * 0.1 + 900)"
proof -
  have v: "fromSlpString ''SLP982'' =
      Some \<lparr>pressureValue = Some (16354509 / 16384), pressureUnit = HECTOPASCAL\<rparr>"
    unfolding fromSlpString_shape
    by (simp add: slpShape_def isDigit_def decimalValue_def digitValue_def
        slpDecimalPointShift_def roundBits_def Let_def bitlen_numeral)
  have "\<not> isSingle (982 * 0.1 + 900)"
  proof
    assume "isSingle (982 * 0.1 + 900)"
    from single_cases [OF this, of 23] have "\<exists>j::int. (4991::real) = of_int j * 5 / 2 ^ 23"
      by (auto simp: field_simps)
    then obtain j :: int where "(4991::real) * 2 ^ 23 = of_int j * 5" by (auto simp: field_simps)
    then have "real_of_int (4991 * 2 ^ 23) = real_of_int (j * 5)" by simp
    then have "(4991::int) * 2 ^ 23 = j * 5" by (simp only: of_int_eq_iff)
    then have "j * 5 = 41867542528" by simp
    then show False by presburger
  qed
  with v show ?thesis by simp
qed

text \<open>
  Claim C8, amended: \<^verbatim>\<open>Pressure::fromSlpString\<close> accepts exactly the strings of the shape
  \<^verbatim>\<open>SLPnnn\<close>, \<^verbatim>\<open>nnn\<close> three decimal digits, and every other string is rejected. For
  \<^verbatim>\<open>SLPnnn\<close> it returns a pressure in hectopascal whose value is the single-precision
  number nearest to \<open>nnn \<cdot> 0.1 + base\<close>, where \<open>base\<close> is 1000 when \<open>nnn < 500\<close> and 900
  otherwise; no other single-precision number is as near.
\<close>

theorem fromSlpString_accepts_exactly:
  "(slpShape s \<longrightarrow>
      (\<exists>v. fromSlpString s = Some \<lparr>pressureValue = Some v, pressureUnit = HECTOPASCAL\<rparr> \<and>
           nearestSingle (real (decimalValue (drop 3 s)) * 0.1 +
                          (if decimalValue (drop 3 s) < 500 then 1000 else 900)) v \<and>
           (\<forall>w. nearestSingle (real (decimalValue (drop 3 s)) * 0.1 +
                          (if decimalValue (drop 3 s) < 500 then 1000 else 900)) w \<longrightarrow> w = v))) \<and>
   (\<not> slpShape s \<longrightarrow> fromSlpString s = None)"
proof (intro conjI impI)
  assume sh: "slpShape s"
  define n where "n = decimalValue (drop 3 s)"
  from sh have "list_all isDigit (drop 3 s)" "length (drop 3 s) = 3"
    by (simp_all add: slpShape_def)
  with decimalValue_bound [of "drop 3 s"] have n: "n < 1000" by (simp add: n_def)
  define V where "V = roundBits 24 (roundBits 53 (roundBits 53 (n * slpDecimalPointShift) +
    (if n < 500 then 1000 else 900) * 2 ^ 55))"
  have eq: "fromSlpString s =
      Some \<lparr>pressureValue = Some (real V / 2 ^ 55), pressureUnit = HECTOPASCAL\<rparr>"
    unfolding fromSlpString_shape using sh by (simp add: Let_def V_def n_def)
  from slpStored_nearest [OF n]
  have "nearestSingle (real n * 0.1 + (if n < 500 then 1000 else 900)) (real V / 2 ^ 55)"
    and "\<forall>w. nearestSingle (real n * 0.1 + (if n < 500 then 1000 else 900)) w \<longrightarrow>
           w = real V / 2 ^ 55"
    unfolding V_def by blast+
  then show
    "\<exists>v. fromSlpString s = Some \<lparr>pressureValue = Some v, pressureUnit = HECTOPASCAL\<rparr> \<and>
       nearestSingle (real (decimalValue (drop 3 s)) * 0.1 +
                      (if decimalValue (drop 3 s) < 500 then 1000 else 900)) v \<and>
       (\<forall>w. nearestSingle (real (decimalValue (drop 3 s)) * 0.1 +
                      (if decimalValue (drop 3 s) < 500 then 1000 else 900)) w \<longrightarrow> w = v)"
    unfolding n_def [symmetric] eq by blast
next
  assume "\<not> slpShape s"
  then show "fromSlpString s = None" unfolding fromSlpString_shape by simp
qed

theorem fromSlpString_accepts_exactly_witness:
  "slpShape ''SLP982'' \<and>
   fromSlpString ''SLP982'' =
     Some \<lparr>pressureValue = Some (16354509 / 16384), pressureUnit = HECTOPASCAL\<rparr> \<and>
   nearestSingle (982 * 0.1 + 900) (16354509 / 16384) \<and>
   slpShape ''SLP015'' \<and>
   fromSlpString ''SLP015'' = Some \<lparr>pressureValue = Some 1001.5, pressureUnit = HECTOPASCAL\<rparr> \<and>
   nearestSingle (15 * 0.1 + 1000) 1001.5 \<and>
   \<not> slpShape ''SLP98'' \<and> fromSlpString ''SLP98'' = None \<and>
   \<not> slpShape ''SLP9A2'' \<and> fromSlpString ''SLP9A2'' = None \<and>
   \<not> slpShape ''QNH982'' \<and> fromSlpString ''QNH982'' = None"
proof -
  have a: "fromSlpString ''SLP982'' =
      Some \<lparr>pressureValue = Some (16354509 / 16384), pressureUnit = HECTOPASCAL\<rparr>"
    unfolding fromSlpString_shape
    by (simp add: slpShape_def isDigit_def decimalValue_def digitValue_def
        slpDecimalPointShift_def roundBits_def Let_def bitlen_numeral)
  have b: "fromSlpString ''SLP015'' =
      Some \<lparr>pressureValue = Some 1001.5, pressureUnit = HECTOPASCAL\<rparr>"
    unfolding fromSlpString_shape
    by (simp add: slpShape_def isDigit_def decimalValue_def digitValue_def
        slpDecimalPointShift_def roundBits_def Let_def bitlen_numeral)
  have d: "decimalValue (drop 3 ''SLP982'') = 982" "decimalValue (drop 3 ''SLP015'') = 15"
    by (simp_all add: decimalValue_def digitValue_def)
  have s: "slpShape ''SLP982''" "slpShape ''SLP015''" "\<not> slpShape ''SLP98''"
    "\<not> slpShape ''SLP9A2''" "\<not> slpShape ''QNH982''"
    by (simp_all add: slpShape_def isDigit_def)
  from fromSlpString_accepts_exactly [of "''SLP982''"] s(1)
  obtain v where v:
    "fromSlpString ''SLP982'' = Some \<lparr>pressureValue = Some v, pressureUnit = HECTOPASCAL\<rparr>"
    "nearestSingle (real (decimalValue (drop 3 ''SLP982'')) * 0.1 +
       (if decimalValue (drop 3 ''SLP982'') < 500 then 1000 else 900)) v"
    by blast
  from v(1) have "v = 16354509 / 16384" unfolding a by simp
  with v(2) have n1: "nearestSingle (982 * 0.1 + 900) (16354509 / 16384)"
    unfolding d by simp
  from fromSlpString_accepts_exactly [of "''SLP015''"] s(2)
  obtain u where u:
    "fromSlpString ''SLP015'' = Some \<lparr>pressureValue = Some u, pressureUnit = HECTOPASCAL\<rparr>"
    "nearestSingle (real (decimalValue (drop 3 ''SLP015'')) * 0.1 +
       (if decimalValue (drop 3 ''SLP015'') < 500 then 1000 else 900)) u"
    by blast
  from u(1) have "u = 1001.5" unfolding b by simp
  with u(2) have n2: "nearestSingle (15 * 0.1 + 1000) 1001.5"
    unfolding d by simp
  from fromSlpString_accepts_exactly [of "''SLP98''"] s(3)
  have r1: "fromSlpString ''SLP98'' = None" by blast
  from fromSlpString_accepts_exactly [of "''SLP9A2''"] s(4)
  have r2: "fromSlpString ''SLP9A2'' = None" by blast
  from fromSlpString_accepts_exactly [of "''QNH982''"] s(5)
  have r3: "fromSlpString ''QNH982'' = None" by blast
  show ?thesis by (intro conjI s a n1 b n2 r1 r2 r3)
qed

subsection \<open>The runway deposits\<close>

text \<open>
  Claim C9: \<^verbatim>\<open>Precipitation::fromRunwayDeposits\<close> rejects every string whose length
  is not 2; for \<^verbatim>\<open>//\<close> it returns the status \<^verbatim>\<open>NOT_REPORTED\<close>; on two decimal digits
  it returns, for the codes 00 to 90, the status \<^verbatim>\<open>REPORTED\<close> with the code as the
  value in millimetres, for the codes 92 to 98 the status \<^verbatim>\<open>REPORTED\<close> with 100, 150,
  200, 250, 300, 350 and 400 mm, for the code 99 the status
  \<^verbatim>\<open>RUNWAY_NOT_OPERATIONAL\<close>, and for the code 91 no value.
\<close>

theorem fromRunwayDeposits_table:
  "(length s \<noteq> 2 \<longrightarrow> fromRunwayDeposits s = None) \<and>
   fromRunwayDeposits ''//'' = Some \<lparr>precipStatus = NOT_REPORTED, precipValue = 0\<rparr> \<and>
   (isDigit a \<and> isDigit b \<longrightarrow>
      fromRunwayDeposits [a, b] =
        (let code = decimalValue [a, b] in
         if code \<le> 90 then Some \<lparr>precipStatus = REPORTED, precipValue = real code\<rparr>
         else if code = 91 then None
         else if code = 92 then Some \<lparr>precipStatus = REPORTED, precipValue = 100\<rparr>
         else if code = 93 then Some \<lparr>precipStatus = REPORTED, precipValue = 150\<rparr>
         else if code = 94 then Some \<lparr>precipStatus = REPORTED, precipValue = 200\<rparr>
         else if code = 95 then Some \<lparr>precipStatus = REPORTED, precipValue = 250\<rparr>
         else if code = 96 then Some \<lparr>precipStatus = REPORTED, precipValue = 300\<rparr>
         else if code = 97 then Some \<lparr>precipStatus = REPORTED, precipValue = 350\<rparr>
         else if code = 98 then Some \<lparr>precipStatus = REPORTED, precipValue = 400\<rparr>
         else Some \<lparr>precipStatus = RUNWAY_NOT_OPERATIONAL, precipValue = 0\<rparr>))"
proof (intro conjI impI)
  show "fromRunwayDeposits s = None" if "length s \<noteq> 2"
    using that by (simp add: fromRunwayDeposits_def)
  show "fromRunwayDeposits ''//'' = Some \<lparr>precipStatus = NOT_REPORTED, precipValue = 0\<rparr>"
    by (simp add: fromRunwayDeposits_def Precipitation_default_def)
next
  assume d: "isDigit a \<and> isDigit b"
  then have ns: "a \<noteq> CHR ''/''" by (auto simp: isDigit_def)
  have "Suc (decimalValue [a, b]) \<le> 10 ^ length [a, b]"
    using d by (intro decimalValue_bound) simp
  then have le: "decimalValue [a, b] \<le> 99" by simp
  have s: "strToUint [a, b] 0 2 = Some (decimalValue [a, b])"
    using d by (simp add: strToUint_decimal)
  define code where "code = decimalValue [a, b]"
  have r: "fromRunwayDeposits [a, b] =
        (if code = 91 then None
         else if code = 92 then Some \<lparr>precipStatus = REPORTED, precipValue = 100\<rparr>
         else if code = 93 then Some \<lparr>precipStatus = REPORTED, precipValue = 150\<rparr>
         else if code = 94 then Some \<lparr>precipStatus = REPORTED, precipValue = 200\<rparr>
         else if code = 95 then Some \<lparr>precipStatus = REPORTED, precipValue = 250\<rparr>
         else if code = 96 then Some \<lparr>precipStatus = REPORTED, precipValue = 300\<rparr>
         else if code = 97 then Some \<lparr>precipStatus = REPORTED, precipValue = 350\<rparr>
         else if code = 98 then Some \<lparr>precipStatus = REPORTED, precipValue = 400\<rparr>
         else if code = 99
           then Some \<lparr>precipStatus = RUNWAY_NOT_OPERATIONAL, precipValue = 0\<rparr>
         else Some \<lparr>precipStatus = REPORTED, precipValue = real code\<rparr>)"
    unfolding fromRunwayDeposits_def code_def using ns s by simp
  consider "code \<le> 90" | "code = 91" | "code = 92" | "code = 93" | "code = 94" | "code = 95"
    | "code = 96" | "code = 97" | "code = 98" | "code = 99"
    using le unfolding code_def by linarith
  then show "fromRunwayDeposits [a, b] =
        (let code = decimalValue [a, b] in
         if code \<le> 90 then Some \<lparr>precipStatus = REPORTED, precipValue = real code\<rparr>
         else if code = 91 then None
         else if code = 92 then Some \<lparr>precipStatus = REPORTED, precipValue = 100\<rparr>
         else if code = 93 then Some \<lparr>precipStatus = REPORTED, precipValue = 150\<rparr>
         else if code = 94 then Some \<lparr>precipStatus = REPORTED, precipValue = 200\<rparr>
         else if code = 95 then Some \<lparr>precipStatus = REPORTED, precipValue = 250\<rparr>
         else if code = 96 then Some \<lparr>precipStatus = REPORTED, precipValue = 300\<rparr>
         else if code = 97 then Some \<lparr>precipStatus = REPORTED, precipValue = 350\<rparr>
         else if code = 98 then Some \<lparr>precipStatus = REPORTED, precipValue = 400\<rparr>
         else Some \<lparr>precipStatus = RUNWAY_NOT_OPERATIONAL, precipValue = 0\<rparr>)"
    unfolding r Let_def code_def [symmetric] by cases simp_all
qed

theorem fromRunwayDeposits_table_witness:
  "fromRunwayDeposits ''123'' = None \<and>
   fromRunwayDeposits ''//'' = Some \<lparr>precipStatus = NOT_REPORTED, precipValue = 0\<rparr> \<and>
   fromRunwayDeposits ''07'' = Some \<lparr>precipStatus = REPORTED, precipValue = 7\<rparr> \<and>
   fromRunwayDeposits ''94'' = Some \<lparr>precipStatus = REPORTED, precipValue = 200\<rparr> \<and>
   fromRunwayDeposits ''91'' = None \<and>
   fromRunwayDeposits ''99'' = Some \<lparr>precipStatus = RUNWAY_NOT_OPERATIONAL, precipValue = 0\<rparr>"
  using fromRunwayDeposits_table [of "''123''" "CHR ''0''" "CHR ''7''"]
    fromRunwayDeposits_table [of "''123''" "CHR ''9''" "CHR ''4''"]
    fromRunwayDeposits_table [of "''123''" "CHR ''9''" "CHR ''1''"]
    fromRunwayDeposits_table [of "''123''" "CHR ''9''" "CHR ''9''"]
  by (simp add: isDigit_def decimalValue_def digitValue_def)

subsection \<open>The distance in miles\<close>

text \<open>
  Claim C6, as stated, fails: an integer distance of 1 statute mile and the fraction
  0/4 of a statute mile (what \<^verbatim>\<open>0/4SM\<close> parses to) satisfy \<^verbatim>\<open>isInteger\<close>,
  \<^verbatim>\<open>isFraction\<close>, have the same unit and the modifier \<^verbatim>\<open>NONE\<close>, and
  \<^verbatim>\<open>fromIntegerAndFraction\<close> returns no value, because the fraction is not valid.
\<close>

theorem fromIntegerAndFraction_iff_counterexample:
  "\<not> (\<forall>integer fraction.
        (fromIntegerAndFraction integer fraction \<noteq> None) =
        (isInteger integer \<and> isFraction fraction \<and> distUnit integer = distUnit fraction \<and>
         distModifier integer = Modifier.NONE \<and> distModifier fraction = Modifier.NONE))"
proof
  assume a: "\<forall>integer fraction.
        (fromIntegerAndFraction integer fraction \<noteq> None) =
        (isInteger integer \<and> isFraction fraction \<and> distUnit integer = distUnit fraction \<and>
         distModifier integer = Modifier.NONE \<and> distModifier fraction = Modifier.NONE)"
  let ?i = "\<lparr>distModifier = Modifier.NONE, distValueInt = Some 1, distValueNum = None,
             distValueDen = None, distUnit = STATUTE_MILES\<rparr>"
  let ?f = "\<lparr>distModifier = Modifier.NONE, distValueInt = None, distValueNum = Some 0,
             distValueDen = Some 4, distUnit = STATUTE_MILES\<rparr>"
  from a have "(fromIntegerAndFraction ?i ?f \<noteq> None) =
        (isInteger ?i \<and> isFraction ?f \<and> distUnit ?i = distUnit ?f \<and>
         distModifier ?i = Modifier.NONE \<and> distModifier ?f = Modifier.NONE)" by blast
  then show False
    by (simp add: fromIntegerAndFraction_def isInteger_def isFraction_def Distance_isValid_def)
qed

text \<open>
  Claim C6, amended: \<^verbatim>\<open>Distance::fromIntegerAndFraction\<close> returns a value if and only
  if \<^verbatim>\<open>integer.isInteger()\<close> and \<^verbatim>\<open>fraction.isFraction()\<close> hold, both have the same
  unit and the modifier \<^verbatim>\<open>NONE\<close>, and neither the numerator nor the denominator of
  the fraction is zero (both arguments are valid); the value carries the integer part of
  the first argument and the numerator and denominator of the second.
\<close>

theorem fromIntegerAndFraction_defined_iff:
  "(fromIntegerAndFraction integer fraction \<noteq> None) =
     (isInteger integer \<and> isFraction fraction \<and> distUnit integer = distUnit fraction \<and>
      distModifier integer = Modifier.NONE \<and> distModifier fraction = Modifier.NONE \<and>
      distValueNum fraction \<noteq> Some 0 \<and> distValueDen fraction \<noteq> Some 0) \<and>
   (\<forall>r. fromIntegerAndFraction integer fraction = Some r \<longrightarrow>
      distValueInt r = distValueInt integer \<and>
      distValueNum r = distValueNum fraction \<and>
      distValueDen r = distValueDen fraction \<and>
      distUnit r = distUnit integer \<and> distModifier r = Modifier.NONE)"
  by (auto simp: fromIntegerAndFraction_def isInteger_def isFraction_def Distance_isValid_def)

theorem fromIntegerAndFraction_defined_iff_witness:
  "fromIntegerAndFraction
     \<lparr>distModifier = Modifier.NONE, distValueInt = Some 1, distValueNum = None,
      distValueDen = None, distUnit = STATUTE_MILES\<rparr>
     \<lparr>distModifier = Modifier.NONE, distValueInt = None, distValueNum = Some 3,
      distValueDen = Some 4, distUnit = STATUTE_MILES\<rparr> \<noteq> None \<and>
   (\<exists>r. fromIntegerAndFraction
     \<lparr>distModifier = Modifier.NONE, distValueInt = Some 1, distValueNum = None,
      distValueDen = None, distUnit = STATUTE_MILES\<rparr>
     \<lparr>distModifier = Modifier.NONE, distValueInt = None, distValueNum = Some 3,
      distValueDen = Some 4, distUnit = STATUTE_MILES\<rparr> = Some r \<and>
     distValueInt r = Some 1 \<and> distValueNum r = Some 3 \<and> distValueDen r = Some 4)"
  using fromIntegerAndFraction_defined_iff
    [of "\<lparr>distModifier = Modifier.NONE, distValueInt = Some 1, distValueNum = None,
      distValueDen = None, distUnit = STATUTE_MILES\<rparr>"
     "\<lparr>distModifier = Modifier.NONE, distValueInt = None, distValueNum = Some 3,
      distValueDen = Some 4, distUnit = STATUTE_MILES\<rparr>"]
  by (auto simp: isInteger_def isFraction_def)

section \<open>Properties of the report parser\<close>

lemmas transition_defs =
  transition_def setState_def setError_def setReportType_def getReportType_def Let_def
  transitionFromReportTypeOrLocation_def transitionFromCorrecton_def
  transitionFromReportTime_def transitionFromTimeSpan_def
  transitionFromReportBodyBeginMetar_def transitionFromReportBodyMetar_def
  transitionFromReportBodyBeginTaf_def transitionFromReportBodyTaf_def

lemma transition_not_reparse_twice:
  "isReparseRequired st \<Longrightarrow> \<not> isReparseRequired (transition g st)"
  by (cases g) (simp_all add: isReparseRequired_def transition_defs)

lemma transition_errorIffErrorState:
  "errorIffErrorState st \<Longrightarrow> errorIffErrorState (transition g st)"
  by (cases "state st"; cases g)
     (simp_all add: errorIffErrorState_def isError_def transition_defs)

lemma finalTransition_error:
  "errorIffErrorState st \<Longrightarrow> isError st \<Longrightarrow> finalTransition st = st"
  by (simp add: errorIffErrorState_def finalTransition_def)

lemma getReportPart_cases:
  "getReportPart st =
     (case state st of
        State.REPORT_TYPE_OR_LOCATION \<Rightarrow> ReportPart.HEADER
      | State.CORRECTION \<Rightarrow> ReportPart.HEADER
      | State.LOCATION \<Rightarrow> ReportPart.HEADER
      | State.REPORT_TIME \<Rightarrow> ReportPart.HEADER
      | State.TIME_SPAN \<Rightarrow> ReportPart.HEADER
      | State.REPORT_BODY_BEGIN_METAR \<Rightarrow> ReportPart.METAR
      | State.REPORT_BODY_BEGIN_METAR_REPEAT_PARSE \<Rightarrow> ReportPart.METAR
      | State.REPORT_BODY_METAR \<Rightarrow> ReportPart.METAR
      | State.REPORT_BODY_BEGIN_TAF \<Rightarrow> ReportPart.TAF
      | State.REPORT_BODY_TAF \<Rightarrow> ReportPart.TAF
      | State.REMARK_METAR \<Rightarrow> ReportPart.RMK
      | State.REMARK_TAF \<Rightarrow> ReportPart.RMK
      | _ \<Rightarrow> ReportPart.UNKNOWN)"
  by (cases "state st") (simp_all add: getReportPart_def stateReportParts_def)

lemma transition_partRank:
  "partRank (getReportPart st) \<le> partRank (getReportPart (transition g st))"
  by (cases "state st"; cases g)
     (simp_all add: getReportPart_cases transition_defs)

lemma parseAndTransition_unrolled:
  "parseAndTransition T s st =
     (let grp = tParse T s (getReportPart st);
          st' = transition (tSyntaxGroup T grp) st
      in if isReparseRequired st'
         then (let grp' = tParse T s (getReportPart st');
                   st'' = transition (tSyntaxGroup T grp') st'
               in (grp', st'', [getReportPart st, getReportPart st']))
         else (grp, st', [getReportPart st]))"
proof -
  define grp where "grp = tParse T s (getReportPart st)"
  define st' where "st' = transition (tSyntaxGroup T grp) st"
  show ?thesis
  proof (cases "isReparseRequired st'")
    case False
    then show ?thesis
      unfolding parseAndTransition.simps [of T s st] Let_def grp_def [symmetric] st'_def [symmetric]
      by simp
  next
    case True
    have second: "parseAndTransition T s st' =
        (tParse T s (getReportPart st'),
         transition (tSyntaxGroup T (tParse T s (getReportPart st'))) st',
         [getReportPart st'])"
      unfolding parseAndTransition.simps [of T s st'] Let_def
      using transition_not_reparse_twice [OF True] by simp
    show ?thesis
      unfolding parseAndTransition.simps [of T s st] Let_def grp_def [symmetric] st'_def [symmetric]
      using True by (simp add: second)
  qed
qed


lemma parseAndTransition_errorIffErrorState:
  "errorIffErrorState st \<Longrightarrow> errorIffErrorState (fst (snd (parseAndTransition T s st)))"
  by (simp add: parseAndTransition_unrolled Let_def transition_errorIffErrorState)

lemma parseAndTransition_parts:
  "sorted_wrt (\<lambda>p q. partRank p \<le> partRank q) (snd (snd (parseAndTransition T s st))) \<and>
   (\<forall>p \<in> set (snd (snd (parseAndTransition T s st))).
      partRank (getReportPart st) \<le> partRank p \<and>
      partRank p \<le> partRank (getReportPart (fst (snd (parseAndTransition T s st)))))"
proof -
  have a: "partRank (getReportPart st) \<le> partRank (getReportPart (transition g st))" for g
    by (rule transition_partRank)
  have b: "partRank (getReportPart st) \<le>
      partRank (getReportPart (transition g' (transition g st)))" for g g'
    using transition_partRank [of st g] transition_partRank [of "transition g st" g']
    by (rule le_trans)
  show ?thesis
    by (simp add: parseAndTransition_unrolled Let_def a b transition_partRank)
qed

lemma parseLoop_stopped:
  "reportEnd L \<or> isError (status L) \<Longrightarrow> parseLoop T e toks L = L"
  by (cases toks) auto

lemma parseLoop_append:
  "parseLoop T e (xs @ ys) L = parseLoop T e ys (parseLoop T e xs L)"
  by (induction xs arbitrary: L) (auto simp: parseLoop_stopped)

lemma parseLoop_invariant:
  assumes step: "\<And>tok L. P L \<Longrightarrow> P (loopBody T e tok L)" and init: "P L"
  shows "P (parseLoop T e toks L)"
  using init by (induction toks arbitrary: L) (auto intro: step)

lemma loopBody_status:
  "status (loopBody T e tok L) =
     (if groupStringOf tok = [] then status L
      else fst (snd (parseAndTransition T (groupStringOf tok) (status L))))"
  by (simp add: loopBody_def parseGroupString_def groupStringOf_def Let_def split: prod.splits)

lemma loopBody_dispatched:
  "dispatched (loopBody T e tok L) =
     (if groupStringOf tok = [] then dispatched L
      else dispatched L @ snd (snd (parseAndTransition T (groupStringOf tok) (status L))))"
  by (simp add: loopBody_def parseGroupString_def groupStringOf_def Let_def split: prod.splits)

lemma loopBody_consumed: "consumed (loopBody T e tok L) = consumed L @ [tok]"
  by (simp add: loopBody_def parseGroupString_def Let_def split: prod.splits)

lemma loopBody_errorIffErrorState:
  "errorIffErrorState (status L) \<Longrightarrow> errorIffErrorState (status (loopBody T e tok L))"
  by (simp add: loopBody_status parseAndTransition_errorIffErrorState)

lemma parseLoop_errorIffErrorState:
  "errorIffErrorState (status L) \<Longrightarrow> errorIffErrorState (status (parseLoop T e toks L))"
  by (rule parseLoop_invariant [where P = "\<lambda>L. errorIffErrorState (status L)"])
     (simp_all add: loopBody_errorIffErrorState)

lemma Locals_init_errorIffErrorState: "errorIffErrorState (status Locals_init)"
  by (simp add: Locals_init_def Status_init_def errorIffErrorState_def isError_def)

lemma loopBody_dispatchedInOrder:
  assumes "dispatchedInOrder L"
  shows "dispatchedInOrder (loopBody T e tok L)"
proof (cases "groupStringOf tok = []")
  case True
  then show ?thesis using assms
    by (simp add: dispatchedInOrder_def loopBody_status loopBody_dispatched)
next
  case False
  define r where "r = parseAndTransition T (groupStringOf tok) (status L)"
  have parts: "sorted_wrt (\<lambda>p q. partRank p \<le> partRank q) (snd (snd r))"
    and bounds: "\<forall>p \<in> set (snd (snd r)).
      partRank (getReportPart (status L)) \<le> partRank p \<and>
      partRank p \<le> partRank (getReportPart (fst (snd r)))"
    using parseAndTransition_parts [of T "groupStringOf tok" "status L"]
    unfolding r_def by simp_all
  have old: "sorted_wrt (\<lambda>p q. partRank p \<le> partRank q) (dispatched L)"
    and oldb: "\<forall>p \<in> set (dispatched L). partRank p \<le> partRank (getReportPart (status L))"
    using assms by (simp_all add: dispatchedInOrder_def)
  have st: "status (loopBody T e tok L) = fst (snd r)"
    and d: "dispatched (loopBody T e tok L) = dispatched L @ snd (snd r)"
    using False by (simp_all add: loopBody_status loopBody_dispatched r_def)
  have mono: "partRank (getReportPart (status L)) \<le> partRank (getReportPart (fst (snd r)))"
    unfolding r_def
    by (simp add: parseAndTransition_unrolled Let_def transition_partRank
          le_trans [OF transition_partRank transition_partRank])
  show ?thesis
    unfolding dispatchedInOrder_def st d
    using parts bounds old oldb mono
    by (auto simp: sorted_wrt_append intro: le_trans)
qed

lemma parseLoop_dispatchedInOrder:
  "dispatchedInOrder L \<Longrightarrow> dispatchedInOrder (parseLoop T e toks L)"
  by (rule parseLoop_invariant [where P = dispatchedInOrder])
     (simp_all add: loopBody_dispatchedInOrder)

text \<open>
  Claim C5: for every report, the report parts under which the tokens are parsed, in
  the order of the calls of the group parser (a second parse of a token included), never
  go back: the header comes first, then the body of a METAR or of a TAF, then the
  remarks, then the part \<^verbatim>\<open>UNKNOWN\<close> of the terminal states.
\<close>

theorem dispatched_monotone:
  "sorted_wrt (\<lambda>p q. partRank p \<le> partRank q) (dispatched (parseInternal T report extendedResult))"
proof -
  have "dispatchedInOrder (Locals_init :: 'a Locals)"
    by (simp add: dispatchedInOrder_def Locals_init_def)
  then have "dispatchedInOrder (parseLoop T extendedResult (sregexTokens report) Locals_init)"
    by (rule parseLoop_dispatchedInOrder)
  then show ?thesis
    by (simp add: parseInternal_def Let_def dispatchedInOrder_def)
qed


lemma length_saveToResult:
  "length (saveToResult gs g c) + (if c = None then 0 else 1) = Suc (length gs)"
  by (cases c) (simp_all add: saveToResult_def)

lemma length_saveToExtResult:
  "length (saveToExtResult gs g c p str) + (if c = None then 0 else 1) = Suc (length gs)"
  by (cases c) (simp_all add: saveToExtResult_def Let_def)

lemma loopBody_groupsCounted:
  assumes "groupsCounted e L"
  shows "groupsCounted e (loopBody T e tok L)"
proof (cases "groupStringOf tok = []")
  case True
  then show ?thesis using assms
    by (simp add: groupsCounted_def loopBody_def parseGroupString_def groupStringOf_def Let_def split: if_splits)
next
  case False
  obtain g st' parts where r: "parseAndTransition T (groupStringOf tok) (status L) = (g, st', parts)"
    by (cases "parseAndTransition T (groupStringOf tok) (status L)") auto
  show ?thesis
  proof (cases e)
    case True
    define c where "c = combineWithLastGroup T (getLastGroupExt (extresult L)) g"
    have "length (extresult (loopBody T e tok L)) + combines (loopBody T e tok L) =
        length (saveToExtResult (extresult L) g c (getReportPart (status L)) (groupStringOf tok))
        + (combines L + (if c = None then 0 else 1))"
      using False True r by (simp add: loopBody_def parseGroupString_def groupStringOf_def Let_def c_def)
    also have "\<dots> = Suc (length (extresult L) + combines L)"
      using length_saveToExtResult [of "extresult L" g c] by simp
    finally show ?thesis using assms False True
      by (simp add: groupsCounted_def loopBody_consumed)
  next
    case no: False
    define c where "c = combineWithLastGroup T (getLastGroup (result L)) g"
    have "length (result (loopBody T e tok L)) + combines (loopBody T e tok L) =
        length (saveToResult (result L) g c) + (combines L + (if c = None then 0 else 1))"
      using False no r by (simp add: loopBody_def parseGroupString_def groupStringOf_def Let_def c_def)
    also have "\<dots> = Suc (length (result L) + combines L)"
      using length_saveToResult [of "result L" g c] by simp
    finally show ?thesis using assms False no
      by (simp add: groupsCounted_def loopBody_consumed)
  qed
qed

lemma parseInternal_groupsCounted: "groupsCounted e (parseInternal T report e)"
proof -
  have "groupsCounted e (Locals_init :: 'a Locals)"
    by (simp add: groupsCounted_def Locals_init_def)
  then have "groupsCounted e (parseLoop T e (sregexTokens report) Locals_init)"
    by (rule parseLoop_invariant [where P = "groupsCounted e", rotated])
       (rule loopBody_groupsCounted)
  then show ?thesis
    by (cases e) (simp_all add: parseInternal_def Let_def groupsCounted_def)
qed

text \<open>
  Claim C1, amended: for every report that parses with the error \<^verbatim>\<open>NONE\<close>, the number
  of groups of the result is the number of tokens the loop has taken whose group string
  (the token without a final \<^verbatim>\<open>'='\<close>) is not empty, minus the number of times a group
  was combined with the last one.
\<close>

theorem groups_count:
  "error (parse T report) = Error.NONE \<Longrightarrow>
   length (groups (parse T report)) =
     length (filter (\<lambda>tok. groupStringOf tok \<noteq> []) (consumed (parseInternal T report False)))
     - combines (parseInternal T report False) \<and>
   combines (parseInternal T report False) \<le>
     length (filter (\<lambda>tok. groupStringOf tok \<noteq> []) (consumed (parseInternal T report False)))"
  using parseInternal_groupsCounted [of False T report]
  by (simp add: groupsCounted_def parse_def Let_def)

text \<open>
  Claim C2: when the status has an error after the tokens \<open>ts1\<close> of a report, the
  tokens \<open>ts2\<close> that follow are neither parsed nor appended: the groups of the result
  are those accumulated over \<open>ts1\<close>, its error is the error set there, and the logs of
  the tokens taken and of the report parts stop there too.
\<close>

theorem error_stops_ingestion:
  assumes toks: "sregexTokens report = ts1 @ ts2"
    and err: "isError (status (parseLoop T False ts1 Locals_init))"
  shows "groups (parse T report) = result (parseLoop T False ts1 Locals_init) \<and>
    error (parse T report) = getError (status (parseLoop T False ts1 Locals_init)) \<and>
    consumed (parseInternal T report False) = consumed (parseLoop T False ts1 Locals_init) \<and>
    dispatched (parseInternal T report False) = dispatched (parseLoop T False ts1 Locals_init)"
proof -
  define L1 :: "'a Locals" where "L1 = parseLoop T False ts1 Locals_init"
  have loop: "parseLoop T False (sregexTokens report) Locals_init = L1"
    unfolding toks parseLoop_append L1_def [symmetric]
    using err by (simp add: parseLoop_stopped L1_def)
  have "errorIffErrorState (status L1)"
    unfolding L1_def by (rule parseLoop_errorIffErrorState) (rule Locals_init_errorIffErrorState)
  then have fin: "finalTransition (status L1) = status L1"
    using err unfolding L1_def [symmetric] by (rule finalTransition_error)
  show ?thesis
    unfolding L1_def [symmetric]
    by (simp add: parse_def parseInternal_def Let_def loop fin)
qed


lemma scan_done_prefix: "\<exists>R. fst (foldl scanChar (D0, c0, f0) b) = D0 @ R"
proof (induction b arbitrary: D0 c0 f0)
  case Nil
  then show ?case by simp
next
  case (Cons x b)
  show ?case
  proof (cases "isSpace x")
    case True
    obtain R where "fst (foldl scanChar (if f0 then D0 else D0 @ [c0], [], True) b) =
        (if f0 then D0 else D0 @ [c0]) @ R"
      using Cons.IH by blast
    then show ?thesis using True by (cases f0) auto
  next
    case False
    then show ?thesis using Cons.IH [of D0 "c0 @ [x]" False] by simp
  qed
qed

lemma scan_cur_last:
  "foldl scanChar (D0, [], f0) a = (D, cur, f) \<Longrightarrow> cur \<noteq> [] \<Longrightarrow> a \<noteq> [] \<and> last cur = last a"
proof (induction a arbitrary: D cur f rule: rev_induct)
  case Nil
  then show ?case by simp
next
  case (snoc x xs)
  obtain D' cur' f' where st: "foldl scanChar (D0, [], f0) xs = (D', cur', f')"
    by (cases "foldl scanChar (D0, [], f0) xs") auto
  show ?case using snoc.prems st by (auto split: if_splits)
qed

lemma notSpace_eq: "\<not> isSpace CHR ''=''"
  by (simp add: isSpace_def)

lemma tokens_end:
  "foldl scanChar ([], [], False) a = (D, cur, f) \<Longrightarrow> sregexTokens (a @ ''='') = D @ [cur @ ''='']"
  by (simp add: sregexTokens_def notSpace_eq)

lemma tokens_after_end:
  assumes "isSpace w"
  shows "\<exists>R. sregexTokens (a @ ''='' @ w # b) = sregexTokens (a @ ''='') @ R"
proof -
  obtain D cur f where st: "foldl scanChar ([], [], False) a = (D, cur, f)"
    by (cases "foldl scanChar ([], [], False) a") auto
  obtain D' cur' f' where st': "foldl scanChar (D @ [cur @ ''=''], [], True) b = (D', cur', f')"
    by (cases "foldl scanChar (D @ [cur @ ''=''], [], True) b") auto
  obtain R where R: "D' = (D @ [cur @ ''='']) @ R"
    using scan_done_prefix [of "D @ [cur @ ''='']" "[]" True b] st' by auto
  have "sregexTokens (a @ ''='' @ w # b) = D' @ (if cur' = [] then [] else [cur'])"
    using assms st st' by (simp add: sregexTokens_def notSpace_eq)
  then show ?thesis
    unfolding tokens_end [OF st] R by simp
qed

lemma loopBody_reportEnd:
  "reportEnd (loopBody T e tok L) = (if tok \<noteq> [] \<and> last tok = CHR ''='' then True else reportEnd L)"
  by (simp add: loopBody_def parseGroupString_def Let_def split: prod.splits)

lemma parseLoop_end_stops:
  "reportEnd (parseLoop T e (ts @ [t @ ''='']) L) \<or> isError (status (parseLoop T e (ts @ [t @ ''='']) L))"
proof -
  define L' where "L' = parseLoop T e ts L"
  show ?thesis
    unfolding parseLoop_append L'_def [symmetric]
    by (auto simp: loopBody_reportEnd)
qed

lemma loopBody_strip:
  "t = [] \<or> last t \<noteq> CHR ''='' \<Longrightarrow> outcome (loopBody T e (t @ ''='') L) = outcome (loopBody T e t L)"
  by (auto simp: outcome_def loopBody_def parseGroupString_def Let_def split: prod.splits)

lemma loopBody_empty: "outcome (loopBody T e [] L) = outcome L"
  by (simp add: outcome_def loopBody_def parseGroupString_def Let_def)

lemma loopBody_only_end: "outcome (loopBody T e ''='' L) = outcome L"
  by (simp add: outcome_def loopBody_def parseGroupString_def Let_def)

lemma parseLoop_strip:
  assumes "a = [] \<or> last a \<noteq> CHR ''=''"
  shows "outcome (parseLoop T e (sregexTokens (a @ ''='')) L) =
         outcome (parseLoop T e (sregexTokens a) L)"
proof -
  obtain D cur f where st: "foldl scanChar ([], [], False) a = (D, cur, f)"
    by (cases "foldl scanChar ([], [], False) a") auto
  define L' where "L' = parseLoop T e D L"
  have lhs: "parseLoop T e (sregexTokens (a @ ''='')) L = parseLoop T e [cur @ ''=''] L'"
    unfolding tokens_end [OF st] parseLoop_append L'_def ..
  show ?thesis
  proof (cases "cur = []")
    case True
    have rhs: "outcome (parseLoop T e (sregexTokens a) L) = outcome L'"
    proof (cases "a = []")
      case True
      then have "D = []" using st by simp
      then show ?thesis using True
        by (simp add: sregexTokens_def L'_def loopBody_empty)
    next
      case False
      then show ?thesis using st \<open>cur = []\<close>
        by (simp add: sregexTokens_def L'_def)
    qed
    show ?thesis unfolding lhs rhs using True by (simp add: loopBody_only_end)
  next
    case False
    from scan_cur_last [OF st False] assms have ne: "last cur \<noteq> CHR ''=''" by auto
    have rhs: "parseLoop T e (sregexTokens a) L = parseLoop T e [cur] L'"
      using scan_cur_last [OF st False] st False
      by (simp add: sregexTokens_def parseLoop_append L'_def)
    show ?thesis unfolding lhs rhs using ne by (simp add: loopBody_strip)
  qed
qed

lemma parse_outcome:
  "parse T report =
     (case outcome (parseLoop T False (sregexTokens report) Locals_init) of
        (st, gs, egs) \<Rightarrow>
          \<lparr>reportType = getReportType (finalTransition st),
           error = getError (finalTransition st), groups = gs\<rparr>)"
  by (simp add: parse_def parseInternal_def outcome_def Let_def)

lemma extendedParse_outcome:
  "extendedParse T report =
     (case outcome (parseLoop T True (sregexTokens report) Locals_init) of
        (st, gs, egs) \<Rightarrow>
          \<lparr>ext_reportType = getReportType (finalTransition st),
           ext_error = getError (finalTransition st), extgroups = egs\<rparr>)"
  by (simp add: extendedParse_def parseInternal_def outcome_def Let_def)

lemma parseLoop_after_end:
  assumes "isSpace w"
  shows "parseLoop T e (sregexTokens (a @ ''='' @ w # b)) L =
         parseLoop T e (sregexTokens (a @ ''='')) L"
proof -
  obtain D cur f where st: "foldl scanChar ([], [], False) a = (D, cur, f)"
    by (cases "foldl scanChar ([], [], False) a") auto
  obtain R where R: "sregexTokens (a @ ''='' @ w # b) = sregexTokens (a @ ''='') @ R"
    using tokens_after_end [OF assms] by blast
  show ?thesis
    unfolding R parseLoop_append
    unfolding tokens_end [OF st]
    by (rule parseLoop_stopped) (rule parseLoop_end_stops)
qed

lemma loopBody_end:
  "loopBody T e (t @ ''='') L =
     parseGroupString T e t (L\<lparr>reportEnd := True, consumed := consumed L @ [t @ ''='']\<rparr>)"
  by (simp add: loopBody_def Let_def)

lemma loopBody_no_end:
  "t = [] \<or> last t \<noteq> CHR ''='' \<Longrightarrow>
   loopBody T e t L = parseGroupString T e t (L\<lparr>consumed := consumed L @ [t]\<rparr>)"
  by (auto simp: loopBody_def Let_def)

lemma parseLoop_end_token:
  "parseLoop T e ((t @ ''='') # toks) L =
     (if \<not> reportEnd L \<and> \<not> isError (status L) then loopBody T e (t @ ''='') L else L)"
proof -
  have "reportEnd (loopBody T e (t @ ''='') L)" by (simp add: loopBody_reportEnd)
  then have "parseLoop T e toks (loopBody T e (t @ ''='') L) = loopBody T e (t @ ''='') L"
    by (cases toks) simp_all
  then show ?thesis by simp
qed

text \<open>
  Claim C10: a token that ends in \<^verbatim>\<open>'='\<close> ends the report wherever it stands: what
  follows the white space after it changes neither the result of \<^verbatim>\<open>parse\<close> nor that of
  \<^verbatim>\<open>extendedParse\<close>; and the \<^verbatim>\<open>'='\<close> is removed before the token is parsed: the result
  is that of the report cut before the \<^verbatim>\<open>'='\<close> (when what stands before it does not
  itself end in \<^verbatim>\<open>'='\<close>). For every token, also one that ends in several \<^verbatim>\<open>'='\<close>: the loop
  body for the token \<open>t\<close> followed by \<^verbatim>\<open>'='\<close> sets \<^verbatim>\<open>reportEnd\<close> and handles \<open>t\<close> as the
  group string, so that exactly one \<^verbatim>\<open>'='\<close> is removed, and the loop takes no token
  after it; a token that does not end in \<^verbatim>\<open>'='\<close> is the group string unchanged and
  leaves \<^verbatim>\<open>reportEnd\<close> as it was.
\<close>

theorem end_mark_ends_report:
  assumes "isSpace w"
  shows "parse T (a @ ''='' @ w # b) = parse T (a @ ''='') \<and>
         extendedParse T (a @ ''='' @ w # b) = extendedParse T (a @ ''='') \<and>
         ((a = [] \<or> last a \<noteq> CHR ''='') \<longrightarrow>
            parse T (a @ ''='') = parse T a \<and> extendedParse T (a @ ''='') = extendedParse T a) \<and>
         loopBody T e (t @ ''='') L =
           parseGroupString T e t (L\<lparr>reportEnd := True, consumed := consumed L @ [t @ ''='']\<rparr>) \<and>
         parseLoop T e ((t @ ''='') # toks) L =
           (if \<not> reportEnd L \<and> \<not> isError (status L) then loopBody T e (t @ ''='') L else L) \<and>
         ((t = [] \<or> last t \<noteq> CHR ''='') \<longrightarrow>
            loopBody T e t L = parseGroupString T e t (L\<lparr>consumed := consumed L @ [t]\<rparr>))"
proof -
  have "parse T (a @ ''='' @ w # b) = parse T (a @ ''='') \<and>
        extendedParse T (a @ ''='' @ w # b) = extendedParse T (a @ ''='') \<and>
        ((a = [] \<or> last a \<noteq> CHR ''='') \<longrightarrow>
           parse T (a @ ''='') = parse T a \<and> extendedParse T (a @ ''='') = extendedParse T a)"
    using parseLoop_after_end [OF assms, of T _ a b] parseLoop_strip [of a T]
    by (simp add: parse_outcome extendedParse_outcome)
  then show ?thesis
    using loopBody_end [of T e t L] parseLoop_end_token [of T e t toks L]
      loopBody_no_end [of t T e L]
    by blast
qed

lemmas run_defs =
  sregexTokens_def isSpace_def Locals_init_def Status_init_def loopBody_def parseGroupString_def Let_def
  parseAndTransition_unrolled Parser_def GroupParser_parse_def FixedGroup_parse_def
  LocationGroup_parse_def ReportTimeGroup_parse_def WindShearLowLayerGroup_parse_def
  getSyntaxGroup_def getReportPart_cases isReparseRequired_def isError_def
  getLastGroup_def getLastGroupExt_def combineWithLastGroup_def saveToResult_def
  saveToExtResult_def Group_combine_def
  isUpper_def isDigit_def transition_defs

lemma run_empty:
  "parseLoop T e (sregexTokens []) Locals_init = Locals_init\<lparr>consumed := [[]]\<rparr>"
  by (simp add: sregexTokens_def Locals_init_def Status_init_def loopBody_def parseGroupString_def isError_def)

lemma run_METAR:
  "parseLoop (Parser U) False (sregexTokens ''METAR'') Locals_init =
     \<lparr>reportEnd = False,
      status = \<lparr>state = State.CORRECTION, st_reportType = ReportType.METAR,
                 st_error = Error.NONE\<rparr>,
      result = [Group_Fixed FixedType.METAR], extresult = [],
      consumed = [''METAR''], dispatched = [ReportPart.HEADER], combines = 0\<rparr>"
  by (simp add: run_defs)

lemma run_TAF_AMD:
  "parseLoop (Parser U) False (sregexTokens ''TAF AMD'') Locals_init =
     \<lparr>reportEnd = False,
      status = \<lparr>state = State.LOCATION, st_reportType = ReportType.TAF,
                 st_error = Error.NONE\<rparr>,
      result = [Group_Fixed FixedType.TAF, Group_Fixed FixedType.AMD], extresult = [],
      consumed = [''TAF'', ''AMD''], dispatched = [ReportPart.HEADER, ReportPart.HEADER],
      combines = 0\<rparr>"
  by (simp add: run_defs)

lemma run_METAR_AMD_KJFK:
  "parseLoop (Parser U) False (sregexTokens ''METAR AMD KJFK'') Locals_init =
     \<lparr>reportEnd = False,
      status = \<lparr>state = State.ERROR, st_reportType = ReportType.METAR,
                 st_error = Error.AMD_ALLOWED_IN_TAF_ONLY\<rparr>,
      result = [Group_Fixed FixedType.METAR, Group_Fixed FixedType.AMD], extresult = [],
      consumed = [''METAR'', ''AMD''], dispatched = [ReportPart.HEADER, ReportPart.HEADER],
      combines = 0\<rparr>"
  by (simp add: run_defs)

lemma run_ZZZZ_NIL_end:
  "parseLoop (Parser U) False (sregexTokens ''ZZZZ NIL ='') Locals_init =
     \<lparr>reportEnd = True,
      status = \<lparr>state = State.NIL, st_reportType = ReportType.UNKNOWN,
                 st_error = Error.NONE\<rparr>,
      result = [Group_Location ''ZZZZ'', Group_Fixed FixedType.NIL], extresult = [],
      consumed = [''ZZZZ'', ''NIL'', ''=''], dispatched = [ReportPart.HEADER, ReportPart.HEADER],
      combines = 0\<rparr>"
  by (simp add: run_defs)


section \<open>Properties of the wind shear group\<close>

subsection \<open>The strings Runway::fromString reads\<close>





subsection \<open>Saved groups\<close>





subsection \<open>The combiner\<close>



section \<open>The parser on particular reports\<close>

text \<open>The tokens of some reports, as the iterator of the source yields them.\<close>

lemma sregexTokens_examples:
  "sregexTokens [] = [[]]"
  "sregexTokens '' '' = [[]]"
  "sregexTokens ''METAR  UKLL '' = [''METAR'', ''UKLL'']"
  "sregexTokens '' METAR UKLL='' = [[], ''METAR'', ''UKLL='']"
  by (simp_all add: sregexTokens_def isSpace_def)

lemma run_ZZZZ_NIL:
  "parseLoop (Parser U) False (sregexTokens ''ZZZZ NIL'') Locals_init =
     \<lparr>reportEnd = False,
      status = \<lparr>state = State.NIL, st_reportType = ReportType.UNKNOWN,
                 st_error = Error.NONE\<rparr>,
      result = [Group_Location ''ZZZZ'', Group_Fixed FixedType.NIL], extresult = [],
      consumed = [''ZZZZ'', ''NIL''], dispatched = [ReportPart.HEADER, ReportPart.HEADER],
      combines = 0\<rparr>"
  by (simp add: run_defs)

lemma run_METAR_report:
  "parseLoop (Parser U) False (sregexTokens ''METAR UKLL 181830Z CAVOK RMK AO2 $='') Locals_init =
     \<lparr>reportEnd = True,
      status = \<lparr>state = State.MAINTENANCE_INDICATOR, st_reportType = ReportType.METAR,
                 st_error = Error.NONE\<rparr>,
      result = [Group_Fixed FixedType.METAR, Group_Location ''UKLL'',
                Group_ReportTime \<lparr>dayValue = Some 18, hourValue = 18, minuteValue = 30\<rparr>,
                Group_Fixed FixedType.CAVOK, Group_Fixed FixedType.RMK, Group_Fixed FixedType.AO2,
                Group_Fixed FixedType.MAINTENANCE_INDICATOR],
      extresult = [],
      consumed = [''METAR'', ''UKLL'', ''181830Z'', ''CAVOK'', ''RMK'', ''AO2'', ''$=''],
      dispatched = [ReportPart.HEADER, ReportPart.HEADER, ReportPart.HEADER, ReportPart.METAR,
                    ReportPart.METAR, ReportPart.RMK, ReportPart.RMK],
      combines = 0\<rparr>"
  by (simp add: run_defs fromStringDDHHMM_def strToUint_def)

text \<open>
  Claim C3: \<^verbatim>\<open>parse\<close> of the empty report returns the error \<^verbatim>\<open>EMPTY_REPORT\<close> and no
  group (whatever the group parser), and \<^verbatim>\<open>parse\<close> of the report \<^verbatim>\<open>METAR\<close> returns the
  error \<^verbatim>\<open>UNEXPECTED_REPORT_END\<close>.
\<close>

theorem parse_empty_and_METAR_alone:
  "parse T [] = \<lparr>reportType = ReportType.UNKNOWN, error = Error.EMPTY_REPORT, groups = []\<rparr> \<and>
   error (parse (Parser U) ''METAR'') = Error.UNEXPECTED_REPORT_END"
proof
  have "status (Locals_init\<lparr>consumed := [[]]\<rparr> :: 'a Locals) = Status_init"
    and "result (Locals_init\<lparr>consumed := [[]]\<rparr> :: 'a Locals) = []"
    by (simp_all add: Locals_init_def)
  then show "parse T [] =
      \<lparr>reportType = ReportType.UNKNOWN, error = Error.EMPTY_REPORT, groups = []\<rparr>"
    by (simp add: parse_def parseInternal_def run_empty finalTransition_def setError_def
          getError_def getReportType_def Status_init_def)
  show "error (parse (Parser U) ''METAR'') = Error.UNEXPECTED_REPORT_END"
    by (simp add: parse_def parseInternal_def run_METAR finalTransition_def setError_def
          getError_def)
qed

text \<open>
  Claim C4: in the state \<^verbatim>\<open>CORRECTION\<close> the syntax group \<^verbatim>\<open>AMD\<close> leads to the state
  \<^verbatim>\<open>LOCATION\<close> when the report type is \<^verbatim>\<open>TAF\<close> and to the error
  \<^verbatim>\<open>AMD_ALLOWED_IN_TAF_ONLY\<close> otherwise. After the tokens of \<^verbatim>\<open>TAF AMD\<close> the report
  type is \<^verbatim>\<open>TAF\<close>, there is no error and the state is \<^verbatim>\<open>LOCATION\<close>; \<^verbatim>\<open>parse\<close> of
  \<^verbatim>\<open>METAR AMD KJFK\<close> returns the error \<^verbatim>\<open>AMD_ALLOWED_IN_TAF_ONLY\<close>.
\<close>

theorem correction_AMD:
  "transition SyntaxGroup.AMD \<lparr>state = State.CORRECTION, st_reportType = rt, st_error = e\<rparr> =
     (if rt = ReportType.TAF
      then \<lparr>state = State.LOCATION, st_reportType = rt, st_error = e\<rparr>
      else \<lparr>state = State.ERROR, st_reportType = rt,
            st_error = Error.AMD_ALLOWED_IN_TAF_ONLY\<rparr>) \<and>
   status (parseLoop (Parser U) False (sregexTokens ''TAF AMD'') Locals_init) =
     \<lparr>state = State.LOCATION, st_reportType = ReportType.TAF, st_error = Error.NONE\<rparr> \<and>
   reportType (parse (Parser U) ''TAF AMD'') = ReportType.TAF \<and>
   error (parse (Parser U) ''METAR AMD KJFK'') = Error.AMD_ALLOWED_IN_TAF_ONLY"
  by (simp add: parse_def parseInternal_def run_TAF_AMD run_METAR_AMD_KJFK finalTransition_def
        setError_def getError_def getReportType_def transition_defs)

text \<open>
  Claim C1, as stated, fails: the report \<^verbatim>\<open>ZZZZ NIL =\<close> parses with the error \<^verbatim>\<open>NONE\<close>,
  the loop takes three tokens that are not empty and combines nothing, and the result
  has two groups: the token \<^verbatim>\<open>=\<close> is empty once its \<^verbatim>\<open>'='\<close> is removed, and no group is
  parsed from it.
\<close>

theorem groups_count_counterexample:
  "\<forall>U :: 'x Unmodelled.
     error (parse (Parser U) ''ZZZZ NIL ='') = Error.NONE \<and>
     length (groups (parse (Parser U) ''ZZZZ NIL ='')) = 2 \<and>
     length (filter (\<lambda>tok. tok \<noteq> []) (consumed (parseInternal (Parser U) ''ZZZZ NIL ='' False))) = 3 \<and>
     combines (parseInternal (Parser U) ''ZZZZ NIL ='' False) = 0"
  by (simp add: parse_def parseInternal_def run_ZZZZ_NIL_end finalTransition_def getError_def)

theorem groups_count_witness:
  "\<forall>U :: 'x Unmodelled.
     error (parse (Parser U) ''METAR UKLL 181830Z CAVOK RMK AO2 $='') = Error.NONE \<and>
     length (groups (parse (Parser U) ''METAR UKLL 181830Z CAVOK RMK AO2 $='')) = 7 - 0"
proof
  fix U :: "'x Unmodelled"
  have e: "error (parse (Parser U) ''METAR UKLL 181830Z CAVOK RMK AO2 $='') = Error.NONE"
    by (simp add: parse_def parseInternal_def run_METAR_report finalTransition_def getError_def)
  show "error (parse (Parser U) ''METAR UKLL 181830Z CAVOK RMK AO2 $='') = Error.NONE \<and>
     length (groups (parse (Parser U) ''METAR UKLL 181830Z CAVOK RMK AO2 $='')) = 7 - 0"
    using groups_count [OF e] e
    by (simp add: parseInternal_def run_METAR_report groupStringOf_def)
qed

theorem error_stops_ingestion_witness:
  "\<forall>U :: 'x Unmodelled.
     sregexTokens ''METAR AMD KJFK'' = [''METAR'', ''AMD''] @ [''KJFK''] \<and>
     isError (status (parseLoop (Parser U) False [''METAR'', ''AMD''] Locals_init)) \<and>
     groups (parse (Parser U) ''METAR AMD KJFK'') =
       [Group_Fixed FixedType.METAR, Group_Fixed FixedType.AMD] \<and>
     error (parse (Parser U) ''METAR AMD KJFK'') = Error.AMD_ALLOWED_IN_TAF_ONLY \<and>
     consumed (parseInternal (Parser U) ''METAR AMD KJFK'' False) = [''METAR'', ''AMD'']"
proof
  fix U :: "'x Unmodelled"
  have t: "sregexTokens ''METAR AMD KJFK'' = [''METAR'', ''AMD''] @ [''KJFK'']"
    by (simp add: sregexTokens_def isSpace_def)
  have r: "parseLoop (Parser U) False [''METAR'', ''AMD''] Locals_init =
     \<lparr>reportEnd = False,
      status = \<lparr>state = State.ERROR, st_reportType = ReportType.METAR,
                 st_error = Error.AMD_ALLOWED_IN_TAF_ONLY\<rparr>,
      result = [Group_Fixed FixedType.METAR, Group_Fixed FixedType.AMD], extresult = [],
      consumed = [''METAR'', ''AMD''], dispatched = [ReportPart.HEADER, ReportPart.HEADER],
      combines = 0\<rparr>"
    by (simp add: run_defs)
  have e: "isError (status (parseLoop (Parser U) False [''METAR'', ''AMD''] Locals_init))"
    unfolding r by (simp add: isError_def)
  show "sregexTokens ''METAR AMD KJFK'' = [''METAR'', ''AMD''] @ [''KJFK''] \<and>
     isError (status (parseLoop (Parser U) False [''METAR'', ''AMD''] Locals_init)) \<and>
     groups (parse (Parser U) ''METAR AMD KJFK'') =
       [Group_Fixed FixedType.METAR, Group_Fixed FixedType.AMD] \<and>
     error (parse (Parser U) ''METAR AMD KJFK'') = Error.AMD_ALLOWED_IN_TAF_ONLY \<and>
     consumed (parseInternal (Parser U) ''METAR AMD KJFK'' False) = [''METAR'', ''AMD'']"
    using error_stops_ingestion [OF t e] t e unfolding r by (simp add: getError_def)
qed

theorem dispatched_monotone_witness:
  "\<forall>U :: 'x Unmodelled.
     dispatched (parseInternal (Parser U) ''METAR UKLL 181830Z CAVOK RMK AO2 $='' False) =
       [ReportPart.HEADER, ReportPart.HEADER, ReportPart.HEADER, ReportPart.METAR,
        ReportPart.METAR, ReportPart.RMK, ReportPart.RMK] \<and>
     sorted_wrt (\<lambda>p q. partRank p \<le> partRank q)
       (dispatched (parseInternal (Parser U) ''METAR UKLL 181830Z CAVOK RMK AO2 $='' False))"
  using dispatched_monotone [of "Parser U" "''METAR UKLL 181830Z CAVOK RMK AO2 $=''" False for U]
  by (simp add: parseInternal_def run_METAR_report)

lemma run_ZZZZ_NIL_ext:
  "parseLoop (Parser U) True (sregexTokens ''ZZZZ NIL'') Locals_init =
     \<lparr>reportEnd = False,
      status = \<lparr>state = State.NIL, st_reportType = ReportType.UNKNOWN,
                 st_error = Error.NONE\<rparr>,
      result = [],
      extresult = [(Group_Location ''ZZZZ'', ReportPart.HEADER, ''ZZZZ''),
                   (Group_Fixed FixedType.NIL, ReportPart.HEADER, ''NIL'')],
      consumed = [''ZZZZ'', ''NIL''], dispatched = [ReportPart.HEADER, ReportPart.HEADER],
      combines = 0\<rparr>"
  by (simp add: run_defs)

text \<open>
  A group after \<^verbatim>\<open>NIL\<close>, whatever it is: the status goes to the error
  \<^verbatim>\<open>UNEXPECTED_GROUP_AFTER_NIL\<close>, and the group is saved, as \<^verbatim>\<open>NIL\<close> combines with nothing.
\<close>

lemma parseGroupString_after_NIL:
  assumes "groupString \<noteq> []" and "state (status L) = State.NIL"
    and "result L \<noteq> []" and "last (result L) = Group_Fixed FixedType.NIL"
  shows "parseGroupString (Parser U) False groupString L =
     L\<lparr>status := setError Error.UNEXPECTED_GROUP_AFTER_NIL (status L),
       result := result L @ [GroupParser_parse U groupString ReportPart.UNKNOWN],
       dispatched := dispatched L @ [ReportPart.UNKNOWN]\<rparr>"
proof -
  have part: "getReportPart (status L) = ReportPart.UNKNOWN"
    using assms(2) by (simp add: getReportPart_cases)
  have tr: "transition g (status L) = setError Error.UNEXPECTED_GROUP_AFTER_NIL (status L)" for g
    using assms(2) by (simp add: transition_def)
  have pt: "parseAndTransition (Parser U) groupString (status L) =
      (GroupParser_parse U groupString ReportPart.UNKNOWN,
       setError Error.UNEXPECTED_GROUP_AFTER_NIL (status L), [ReportPart.UNKNOWN])"
    by (simp add: parseAndTransition_unrolled Parser_def part tr isReparseRequired_def
          setError_def)
  show ?thesis
    unfolding parseGroupString_def pt using assms(1,3,4)
    by (simp add: Let_def getLastGroup_def combineWithLastGroup_def
          Parser_def Group_combine_def saveToResult_def)
qed

theorem end_mark_ends_report_witness:
  "\<forall>U :: 'x Unmodelled.
     isSpace CHR '' '' \<and>
     parse (Parser U) ''ZZZZ NIL= FOO BAR'' = parse (Parser U) ''ZZZZ NIL='' \<and>
     parse (Parser U) ''ZZZZ NIL='' = parse (Parser U) ''ZZZZ NIL'' \<and>
     parse (Parser U) ''ZZZZ NIL= FOO BAR'' =
       \<lparr>reportType = ReportType.UNKNOWN, error = Error.NONE,
        groups = [Group_Location ''ZZZZ'', Group_Fixed FixedType.NIL]\<rparr> \<and>
     extendedParse (Parser U) ''ZZZZ NIL= FOO BAR'' = extendedParse (Parser U) ''ZZZZ NIL='' \<and>
     extendedParse (Parser U) ''ZZZZ NIL='' = extendedParse (Parser U) ''ZZZZ NIL'' \<and>
     extendedParse (Parser U) ''ZZZZ NIL= FOO BAR'' =
       \<lparr>ext_reportType = ReportType.UNKNOWN, ext_error = Error.NONE,
        extgroups = [(Group_Location ''ZZZZ'', ReportPart.HEADER, ''ZZZZ''),
                     (Group_Fixed FixedType.NIL, ReportPart.HEADER, ''NIL'')]\<rparr> \<and>
     sregexTokens ''ZZZZ NIL =='' = [''ZZZZ'', ''NIL'', ''==''] \<and>
     parse (Parser U) ''ZZZZ NIL =='' =
       \<lparr>reportType = ReportType.UNKNOWN, error = Error.UNEXPECTED_GROUP_AFTER_NIL,
        groups = [Group_Location ''ZZZZ'', Group_Fixed FixedType.NIL,
                  GroupParser_parse U ''='' ReportPart.UNKNOWN]\<rparr> \<and>
     parse (Parser U) ''ZZZZ NIL FOO'' =
       \<lparr>reportType = ReportType.UNKNOWN, error = Error.UNEXPECTED_GROUP_AFTER_NIL,
        groups = [Group_Location ''ZZZZ'', Group_Fixed FixedType.NIL,
                  GroupParser_parse U ''FOO'' ReportPart.UNKNOWN]\<rparr>"
proof
  fix U :: "'x Unmodelled"
  define L where "L = parseLoop (Parser U) False [''ZZZZ'', ''NIL''] Locals_init"
  have tk: "sregexTokens ''ZZZZ NIL'' = [''ZZZZ'', ''NIL'']"
    "sregexTokens ''ZZZZ NIL =='' = [''ZZZZ'', ''NIL''] @ [''=='']"
    "sregexTokens ''ZZZZ NIL FOO'' = [''ZZZZ'', ''NIL''] @ [''FOO'']"
    by (simp_all add: sregexTokens_def isSpace_def)
  have L: "L = \<lparr>reportEnd = False,
      status = \<lparr>state = State.NIL, st_reportType = ReportType.UNKNOWN,
                 st_error = Error.NONE\<rparr>,
      result = [Group_Location ''ZZZZ'', Group_Fixed FixedType.NIL], extresult = [],
      consumed = [''ZZZZ'', ''NIL''], dispatched = [ReportPart.HEADER, ReportPart.HEADER],
      combines = 0\<rparr>"
    using run_ZZZZ_NIL [of U] unfolding L_def tk(1) .
  have w: "isSpace CHR '' ''" by (simp add: isSpace_def)
  have p: "parse (Parser U) ''ZZZZ NIL'' =
       \<lparr>reportType = ReportType.UNKNOWN, error = Error.NONE,
        groups = [Group_Location ''ZZZZ'', Group_Fixed FixedType.NIL]\<rparr>"
    by (simp add: parse_def parseInternal_def run_ZZZZ_NIL finalTransition_def getError_def
          getReportType_def)
  have x: "extendedParse (Parser U) ''ZZZZ NIL'' =
       \<lparr>ext_reportType = ReportType.UNKNOWN, ext_error = Error.NONE,
        extgroups = [(Group_Location ''ZZZZ'', ReportPart.HEADER, ''ZZZZ''),
                     (Group_Fixed FixedType.NIL, ReportPart.HEADER, ''NIL'')]\<rparr>"
    by (simp add: extendedParse_def parseInternal_def run_ZZZZ_NIL_ext finalTransition_def
          getError_def getReportType_def)
  note em = end_mark_ends_report [OF w, where T = "Parser U" and a = "''ZZZZ NIL''"
    and b = "''FOO BAR''" and e = False and t = "''=''" and L = L and toks = "[]"]
  note em' = end_mark_ends_report [OF w, where T = "Parser U" and a = "''ZZZZ NIL''"
    and b = "''FOO BAR''" and e = False and t = "''FOO''" and L = L and toks = "[]"]
  have ok: "\<not> reportEnd L \<and> \<not> isError (status L)" by (simp add: L isError_def)
  have "parseLoop (Parser U) False (sregexTokens ''ZZZZ NIL =='') Locals_init =
      parseLoop (Parser U) False [''='' @ ''=''] L"
    unfolding tk(2) parseLoop_append L_def by simp
  also have "\<dots> = parseGroupString (Parser U) False ''=''
      (L\<lparr>reportEnd := True, consumed := consumed L @ [''='' @ ''='']\<rparr>)"
    using em ok by simp
  also have "\<dots> =
     \<lparr>reportEnd = True,
      status = \<lparr>state = State.ERROR, st_reportType = ReportType.UNKNOWN,
                 st_error = Error.UNEXPECTED_GROUP_AFTER_NIL\<rparr>,
      result = [Group_Location ''ZZZZ'', Group_Fixed FixedType.NIL,
                GroupParser_parse U ''='' ReportPart.UNKNOWN],
      extresult = [],
      consumed = [''ZZZZ'', ''NIL'', ''==''],
      dispatched = [ReportPart.HEADER, ReportPart.HEADER, ReportPart.UNKNOWN],
      combines = 0\<rparr>"
    by (subst parseGroupString_after_NIL) (simp_all add: L setError_def)
  finally have q: "parse (Parser U) ''ZZZZ NIL =='' =
       \<lparr>reportType = ReportType.UNKNOWN, error = Error.UNEXPECTED_GROUP_AFTER_NIL,
        groups = [Group_Location ''ZZZZ'', Group_Fixed FixedType.NIL,
                  GroupParser_parse U ''='' ReportPart.UNKNOWN]\<rparr>"
    by (simp add: parse_def parseInternal_def finalTransition_def getError_def
          getReportType_def)
  have "parseLoop (Parser U) False (sregexTokens ''ZZZZ NIL FOO'') Locals_init =
      loopBody (Parser U) False ''FOO'' L"
    unfolding tk(3) parseLoop_append L_def using ok unfolding L_def by simp
  also have "\<dots> = parseGroupString (Parser U) False ''FOO''
      (L\<lparr>consumed := consumed L @ [''FOO'']\<rparr>)"
    using em' by simp
  also have "\<dots> =
     \<lparr>reportEnd = False,
      status = \<lparr>state = State.ERROR, st_reportType = ReportType.UNKNOWN,
                 st_error = Error.UNEXPECTED_GROUP_AFTER_NIL\<rparr>,
      result = [Group_Location ''ZZZZ'', Group_Fixed FixedType.NIL,
                GroupParser_parse U ''FOO'' ReportPart.UNKNOWN],
      extresult = [],
      consumed = [''ZZZZ'', ''NIL'', ''FOO''],
      dispatched = [ReportPart.HEADER, ReportPart.HEADER, ReportPart.UNKNOWN],
      combines = 0\<rparr>"
    by (subst parseGroupString_after_NIL) (simp_all add: L setError_def)
  finally have r: "parse (Parser U) ''ZZZZ NIL FOO'' =
       \<lparr>reportType = ReportType.UNKNOWN, error = Error.UNEXPECTED_GROUP_AFTER_NIL,
        groups = [Group_Location ''ZZZZ'', Group_Fixed FixedType.NIL,
                  GroupParser_parse U ''FOO'' ReportPart.UNKNOWN]\<rparr>"
    by (simp add: parse_def parseInternal_def finalTransition_def getError_def
          getReportType_def)
  have t: "sregexTokens ''ZZZZ NIL =='' = [''ZZZZ'', ''NIL'', ''=='']"
    by (simp add: sregexTokens_def isSpace_def)
  show "isSpace CHR '' '' \<and>
     parse (Parser U) ''ZZZZ NIL= FOO BAR'' = parse (Parser U) ''ZZZZ NIL='' \<and>
     parse (Parser U) ''ZZZZ NIL='' = parse (Parser U) ''ZZZZ NIL'' \<and>
     parse (Parser U) ''ZZZZ NIL= FOO BAR'' =
       \<lparr>reportType = ReportType.UNKNOWN, error = Error.NONE,
        groups = [Group_Location ''ZZZZ'', Group_Fixed FixedType.NIL]\<rparr> \<and>
     extendedParse (Parser U) ''ZZZZ NIL= FOO BAR'' = extendedParse (Parser U) ''ZZZZ NIL='' \<and>
     extendedParse (Parser U) ''ZZZZ NIL='' = extendedParse (Parser U) ''ZZZZ NIL'' \<and>
     extendedParse (Parser U) ''ZZZZ NIL= FOO BAR'' =
       \<lparr>ext_reportType = ReportType.UNKNOWN, ext_error = Error.NONE,
        extgroups = [(Group_Location ''ZZZZ'', ReportPart.HEADER, ''ZZZZ''),
                     (Group_Fixed FixedType.NIL, ReportPart.HEADER, ''NIL'')]\<rparr> \<and>
     sregexTokens ''ZZZZ NIL =='' = [''ZZZZ'', ''NIL'', ''==''] \<and>
     parse (Parser U) ''ZZZZ NIL =='' =
       \<lparr>reportType = ReportType.UNKNOWN, error = Error.UNEXPECTED_GROUP_AFTER_NIL,
        groups = [Group_Location ''ZZZZ'', Group_Fixed FixedType.NIL,
                  GroupParser_parse U ''='' ReportPart.UNKNOWN]\<rparr> \<and>
     parse (Parser U) ''ZZZZ NIL FOO'' =
       \<lparr>reportType = ReportType.UNKNOWN, error = Error.UNEXPECTED_GROUP_AFTER_NIL,
        groups = [Group_Location ''ZZZZ'', Group_Fixed FixedType.NIL,
                  GroupParser_parse U ''FOO'' ReportPart.UNKNOWN]\<rparr>"
    using em w p x q r t by simp
qed

text \<open>
  A report with combinations, for the parser in which every recognizer not modelled
  declines: the tokens \<^verbatim>\<open>WS\<close>, \<^verbatim>\<open>ALL\<close> and \<^verbatim>\<open>RWY\<close> become one group, and the nine tokens
  give seven groups.
\<close>

lemma groups_count_example:
  "parseInternal
     (Parser \<lparr>parseTrendToRunwayState = (\<lambda>grp reportPart. None :: unit option),
              parseRainfallToColourCode = (\<lambda>grp reportPart. None),
              isTimeSpanGroup = (\<lambda>x. False),
              combineUnmodelled = (\<lambda>x nextGroup. None)\<rparr>)
     ''METAR UKLL 181830Z WS ALL RWY RMK AO2 $='' False =
     \<lparr>reportEnd = True,
      status = \<lparr>state = State.MAINTENANCE_INDICATOR, st_reportType = ReportType.METAR,
                 st_error = Error.NONE\<rparr>,
      result = [Group_Fixed FixedType.METAR, Group_Location ''UKLL'',
                Group_ReportTime \<lparr>dayValue = Some 18, hourValue = 18, minuteValue = 30\<rparr>,
                Group_WindShearLowLayer
                  \<lparr>rw = \<lparr>rNumber = 88, rDesignator = Designator.NONE\<rparr>,
                   ws_status = COMPLETE\<rparr>,
                Group_Fixed FixedType.RMK, Group_Fixed FixedType.AO2,
                Group_Fixed FixedType.MAINTENANCE_INDICATOR],
      extresult = [],
      consumed = [''METAR'', ''UKLL'', ''181830Z'', ''WS'', ''ALL'', ''RWY'', ''RMK'', ''AO2'',
                  ''$=''],
      dispatched = [ReportPart.HEADER, ReportPart.HEADER, ReportPart.HEADER, ReportPart.METAR,
                    ReportPart.METAR, ReportPart.METAR, ReportPart.METAR, ReportPart.RMK,
                    ReportPart.RMK],
      combines = 2\<rparr>"
  by (simp add: parseInternal_def run_defs fromStringDDHHMM_def strToUint_def finalTransition_def
        WindShearLowLayerGroup_combine_def WindShearLowLayerGroup_default_def
        PlainTextGroup_of_def textMaxLength_def makeAllRunways_def Runway_default_def
        Runway_fromString_def)

end
